theory Spec2Isabelle
  imports Main
begin

section \<open>JavaScript values\<close>

text \<open>
  The migration tool is written in JavaScript. Source records, payloads and API responses
  are untyped JSON values; they are modelled by the datatype \<open>jsval\<close>. An object is an
  association list in insertion order. Numbers are integers (fractions and NaN do not occur
  in the fields the modelled functions compute with).
\<close>

datatype jsval =
    JUndefined
  | JNull
  | JBool bool
  | JNum int
  | JStr string
  | JArr "jsval list"
  | JObj "(string \<times> jsval) list"

type_synonym obj = "(string \<times> jsval) list"

text \<open>A thrown \<open>Error\<close> is its message; \<open>Inl msg\<close> is \<open>throw new Error(msg)\<close>.\<close>

type_synonym 'a result = "string + 'a"

text \<open>Truthiness, as used by \<open>if (x)\<close>, \<open>!x\<close> and \<open>a || b\<close>.\<close>

fun truthy :: "jsval \<Rightarrow> bool" where
  "truthy JUndefined = False"
| "truthy JNull = False"
| "truthy (JBool b) = b"
| "truthy (JNum n) = (n \<noteq> 0)"
| "truthy (JStr s) = (s \<noteq> [])"
| "truthy (JArr xs) = True"
| "truthy (JObj kvs) = True"

text \<open>\<open>a || b\<close>\<close>

definition jor :: "jsval \<Rightarrow> jsval \<Rightarrow> jsval" where
  "jor a b = (if truthy a then a else b)"

text \<open>\<open>o.k\<close> on an object: the value stored under \<open>k\<close>, \<open>undefined\<close> when absent.\<close>

definition getProp :: "obj \<Rightarrow> string \<Rightarrow> jsval" where
  "getProp ob k = (case map_of ob k of Some v \<Rightarrow> v | None \<Rightarrow> JUndefined)"

text \<open>
  \<open>v.k\<close> on a value that is neither \<open>null\<close> nor \<open>undefined\<close> (and \<open>v?.k\<close> on any
  value): only objects carry the keys the program reads.
\<close>

definition pget :: "jsval \<Rightarrow> string \<Rightarrow> jsval" where
  "pget v k = (case v of JObj kvs \<Rightarrow> getProp kvs k | _ \<Rightarrow> JUndefined)"

definition nullish :: "jsval \<Rightarrow> bool" where
  "nullish v = (v = JUndefined \<or> v = JNull)"

text \<open>
  The single and the double quote, and the message of the TypeError raised by reading
  property \<open>k\<close> of \<open>null\<close> or \<open>undefined\<close>.
\<close>

definition sq :: string where
  "sq = [CHR 0x27]"

definition dq :: string where
  "dq = [CHR 0x22]"

definition typeErrorRead :: "jsval \<Rightarrow> string \<Rightarrow> string" where
  "typeErrorRead v k =
     ''Cannot read properties of '' @ (if v = JNull then ''null'' else ''undefined'')
       @ '' (reading '' @ sq @ k @ sq @ '')''"

subsection \<open>Strings\<close>

definition digit_char :: "nat \<Rightarrow> char" where
  "digit_char d = ''0123456789'' ! d"

text \<open>The decimal digits of a number, most significant first, in front of \<open>acc\<close>.\<close>

fun decimalDigits :: "nat \<Rightarrow> string \<Rightarrow> string" where
  "decimalDigits n acc =
     (if n < 10 then digit_char n # acc
      else decimalDigits (n div 10) (digit_char (n mod 10) # acc))"

declare decimalDigits.simps [simp del]

definition natToString :: "nat \<Rightarrow> string" where
  "natToString n = decimalDigits n []"

definition intToString :: "int \<Rightarrow> string" where
  "intToString i = (if 0 \<le> i then natToString (nat i) else CHR ''-'' # natToString (nat (- i)))"

fun join :: "string \<Rightarrow> string list \<Rightarrow> string" where
  "join sep [] = []"
| "join sep [x] = x"
| "join sep (x # y # ys) = x @ sep @ join sep (y # ys)"

text \<open>String conversion, as performed by a template literal \<open>`${v}`\<close>.\<close>

fun toStr :: "jsval \<Rightarrow> string" and elemStr :: "jsval list \<Rightarrow> string list" where
  "toStr JUndefined = ''undefined''"
| "toStr JNull = ''null''"
| "toStr (JBool b) = (if b then ''true'' else ''false'')"
| "toStr (JNum n) = intToString n"
| "toStr (JStr s) = s"
| "toStr (JArr xs) = join '','' (elemStr xs)"
| "toStr (JObj kvs) = ''[object Object]''"
| "elemStr [] = []"
| "elemStr (x # xs) = (if nullish x then [] else toStr x) # elemStr xs"

text \<open>\<open>s.includes(sub)\<close>\<close>

fun starts_with :: "string \<Rightarrow> string \<Rightarrow> bool" where
  "starts_with s [] = True"
| "starts_with [] (c # cs) = False"
| "starts_with (d # ds) (c # cs) = (d = c \<and> starts_with ds cs)"

fun str_includes :: "string \<Rightarrow> string \<Rightarrow> bool" where
  "str_includes [] sub = (sub = [])"
| "str_includes (c # cs) sub = (starts_with (c # cs) sub \<or> str_includes cs sub)"

section \<open>ParallelProcessor.processRooms\<close>

text \<open>
  One entry of the array that \<open>processRooms\<close> returns. The JavaScript object has the
  properties \<open>success\<close>, \<open>room\<close>, \<open>result\<close> or \<open>error\<close>, \<open>duration\<close> and \<open>index\<close>; a property
  the object does not have is \<open>None\<close>.
\<close>

record ('r, 'a) task_result =
  tr_success :: bool
  tr_room :: "'r option"
  tr_result :: "'a option"
  tr_error :: "string option"
  tr_duration :: nat
  tr_index :: int

record pp_statistics =
  totalTasks :: nat
  completedTasks :: nat
  failedTasks :: nat
  activeTasks :: int
  maxActiveTasks :: int

text \<open>The state of a promise after \<open>Promise.allSettled\<close>.\<close>

datatype 'a settled = Fulfilled 'a | Rejected string

text \<open>
  The body handed to the limiter for the room at position \<open>index\<close>. The processing function
  runs on the shared world \<open>'w\<close> and either returns a value or throws; \<open>progressCallback\<close>
  is optional and may throw as well (it is called inside the \<open>try\<close>). \<open>dur index\<close> is the
  duration the clock measures for the task. Every path of the body returns an object, so
  the promise is always fulfilled.
\<close>

definition roomTask ::
  "(nat \<Rightarrow> nat) \<Rightarrow> ('r \<Rightarrow> 'w \<Rightarrow> 'a result \<times> 'w) \<Rightarrow> (nat \<Rightarrow> nat \<Rightarrow> string option) option
     \<Rightarrow> nat \<Rightarrow> 'r \<Rightarrow> pp_statistics \<times> 'w
     \<Rightarrow> ('r, 'a) task_result settled \<times> (pp_statistics \<times> 'w)" where
  "roomTask dur processingFunction progressCallback index room sw =
     (let st = fst sw; w = snd sw;
          st1 = st\<lparr>activeTasks := activeTasks st + 1\<rparr>;
          st2 = st1\<lparr>maxActiveTasks := max (maxActiveTasks st1) (activeTasks st1)\<rparr>;
          failure = (\<lambda>e s.
             (Fulfilled \<lparr>tr_success = False, tr_room = Some room, tr_result = None,
                         tr_error = Some e, tr_duration = dur index, tr_index = int index\<rparr>,
              s\<lparr>failedTasks := failedTasks s + 1, activeTasks := activeTasks s - 1\<rparr>))
      in case processingFunction room w of
           (Inl e, w') \<Rightarrow> (case failure e st2 of (out, st') \<Rightarrow> (out, (st', w')))
         | (Inr res, w') \<Rightarrow>
             (let st3 = st2\<lparr>completedTasks := completedTasks st2 + 1,
                             activeTasks := activeTasks st2 - 1\<rparr>
              in case (case progressCallback of
                         None \<Rightarrow> None
                       | Some cb \<Rightarrow> cb (completedTasks st3) (totalTasks st3)) of
                   Some e \<Rightarrow> (case failure e st3 of (out, st') \<Rightarrow> (out, (st', w')))
                 | None \<Rightarrow>
                     (Fulfilled \<lparr>tr_success = True, tr_room = Some room, tr_result = Some res,
                                 tr_error = None, tr_duration = dur index, tr_index = int index\<rparr>,
                      (st3, w'))))"

text \<open>
  \<open>rooms.map((room, index) => this.limit(...))\<close> followed by \<open>Promise.allSettled\<close>. The
  tasks are run one after the other in list order, which is the schedule of the limiter
  with concurrency 1; the order of the settled array is the order of \<open>rooms\<close> under every
  schedule.
\<close>

fun limitedTasks ::
  "(nat \<Rightarrow> nat) \<Rightarrow> ('r \<Rightarrow> 'w \<Rightarrow> 'a result \<times> 'w) \<Rightarrow> (nat \<Rightarrow> nat \<Rightarrow> string option) option
     \<Rightarrow> nat \<Rightarrow> 'r list \<Rightarrow> pp_statistics \<times> 'w
     \<Rightarrow> ('r, 'a) task_result settled list \<times> (pp_statistics \<times> 'w)" where
  "limitedTasks dur f cb index [] sw = ([], sw)"
| "limitedTasks dur f cb index (room # rooms) sw =
     (case roomTask dur f cb index room sw of
        (out, sw1) \<Rightarrow>
          (case limitedTasks dur f cb (Suc index) rooms sw1 of
             (outs, sw2) \<Rightarrow> (out # outs, sw2)))"

text \<open>The loop over \<open>settledResults\<close>, pushing one entry per settled promise.\<close>

fun settleLoop ::
  "('r, 'a) task_result settled list \<Rightarrow> ('r, 'a) task_result list \<times> pp_statistics
     \<Rightarrow> ('r, 'a) task_result list \<times> pp_statistics" where
  "settleLoop [] acc = acc"
| "settleLoop (Fulfilled v # ss) (results, st) = settleLoop ss (results @ [v], st)"
| "settleLoop (Rejected reason # ss) (results, st) =
     settleLoop ss
       (results @ [\<lparr>tr_success = False, tr_room = None, tr_result = None,
                    tr_error = Some reason, tr_duration = 0, tr_index = - 1\<rparr>],
        st\<lparr>failedTasks := failedTasks st + 1\<rparr>)"

definition processRooms ::
  "(nat \<Rightarrow> nat) \<Rightarrow> pp_statistics \<Rightarrow> 'r list \<Rightarrow> ('r \<Rightarrow> 'w \<Rightarrow> 'a result \<times> 'w)
     \<Rightarrow> (nat \<Rightarrow> nat \<Rightarrow> string option) option \<Rightarrow> 'w
     \<Rightarrow> ('r, 'a) task_result list \<times> (pp_statistics \<times> 'w)" where
  "processRooms dur st0 rooms processingFunction progressCallback w =
     (let st = st0\<lparr>totalTasks := length rooms, completedTasks := 0, failedTasks := 0,
                    activeTasks := 0\<rparr>
      in case limitedTasks dur processingFunction progressCallback 0 rooms (st, w) of
           (settledResults, (st1, w1)) \<Rightarrow>
             (case settleLoop settledResults ([], st1) of
                (results, st2) \<Rightarrow> (results, (st2, w1))))"

section \<open>ValidationService\<close>

text \<open>
  What the transformation takes from its surroundings. \<open>isoDate v\<close> is
  \<open>new Date(v).toISOString()\<close>, \<open>None\<close> when the date is invalid; \<open>parseInt10 v\<close> is
  \<open>parseInt(v, 10)\<close>. \<open>currentDTOs\<close> is the loaded target DTO configuration: per entity
  type and operation, the Joi schema built from it, given by the list of violation messages
  it reports for a payload (empty when the payload is valid; a configuration from which no
  schema can be built is left out). The moderator and file
  transformations are parameters as well: no property below depends on what they compute,
  only on whether they return or throw.
\<close>

record runtime =
  isoDate :: "jsval \<Rightarrow> string option"
  parseInt10 :: "jsval \<Rightarrow> jsval"
  currentDTOs :: "string \<Rightarrow> (string \<Rightarrow> (obj \<Rightarrow> string list) option) option"
  transformLegacyModerator :: "obj \<Rightarrow> jsval \<Rightarrow> jsval \<Rightarrow> jsval \<Rightarrow> obj result"
  transformLegacyFile :: "obj \<Rightarrow> jsval \<Rightarrow> jsval \<Rightarrow> obj result"

text \<open>\<open>ob[k] = v\<close>\<close>

fun setProp :: "obj \<Rightarrow> string \<Rightarrow> jsval \<Rightarrow> obj" where
  "setProp [] k v = [(k, v)]"
| "setProp ((k', v') # kvs) k v = (if k' = k then (k, v) # kvs else (k', v') # setProp kvs k v)"

text \<open>\<open>if (v) ob[k] = v\<close>\<close>

definition setIfTruthy :: "obj \<Rightarrow> string \<Rightarrow> jsval \<Rightarrow> obj" where
  "setIfTruthy ob k v = (if truthy v then setProp ob k v else ob)"

definition validateCurrentSystemData :: "runtime \<Rightarrow> string \<Rightarrow> string \<Rightarrow> obj \<Rightarrow> unit result" where
  "validateCurrentSystemData rt entityType operation dat =
     (case (case currentDTOs rt entityType of None \<Rightarrow> None | Some ops \<Rightarrow> ops operation) of
        None \<Rightarrow> Inl (''No DTO configuration found for '' @ entityType @ ''.'' @ operation)
      | Some schema \<Rightarrow>
          (case schema dat of
             [] \<Rightarrow> Inr ()
           | e # es \<Rightarrow> Inl (''Validation failed for '' @ entityType @ '': '' @ join '', '' (e # es))))"

definition transformDateTime :: "runtime \<Rightarrow> jsval \<Rightarrow> jsval" where
  "transformDateTime rt dateTimeString =
     (if \<not> truthy dateTimeString then JNull
      else case isoDate rt dateTimeString of None \<Rightarrow> JNull | Some isoString \<Rightarrow> JStr isoString)"

definition transformTags :: "obj \<Rightarrow> jsval" where
  "transformTags legacyData =
     (let tags = setIfTruthy [] ''category'' (getProp legacyData ''custom1'');
          tags = setIfTruthy tags ''type'' (getProp legacyData ''custom2'');
          tags = setIfTruthy tags ''level'' (getProp legacyData ''custom3'');
          tags = setIfTruthy tags ''additional'' (getProp legacyData ''tags'')
      in if length tags > 0 then JObj tags else JNull)"

definition legacyRoomName :: "obj \<Rightarrow> jsval" where
  "legacyRoomName legacyRoom =
     foldl jor (getProp legacyRoom ''RoomName'')
       [getProp legacyRoom ''name'', getProp legacyRoom ''roomName'', getProp legacyRoom ''Name'',
        getProp legacyRoom ''DisplayName'']"

text \<open>
  \<open>transformLegacyRoom(legacyRoom, targetEventId, eventLocationId = null)\<close>. The body reads
  \<open>this.currentDTOs.room.create\<close> before anything is validated, which throws a TypeError when
  the configuration has no \<open>room\<close> entry.
\<close>

definition transformLegacyRoom :: "runtime \<Rightarrow> obj \<Rightarrow> jsval \<Rightarrow> jsval \<Rightarrow> obj result" where
  "transformLegacyRoom rt legacyRoom targetEventId eventLocationId =
     (let roomName = legacyRoomName legacyRoom;
          wrap = (\<lambda>m. Inl (''Room transformation failed: '' @ m))
      in if \<not> truthy roomName then wrap ''Room name is required but not found in legacy data''
         else if currentDTOs rt ''room'' = None then wrap (typeErrorRead JUndefined ''create'')
         else
           (let finalEventLocationId =
                  jor (jor eventLocationId (getProp legacyRoom ''EventLocationId'')) targetEventId;
                transformedRoom = [(''eventLocationId'', finalEventLocationId),
                                   (''name'', roomName), (''displayName'', roomName)];
                description = jor (getProp legacyRoom ''description'') (getProp legacyRoom ''Description'');
                transformedRoom = setIfTruthy transformedRoom ''description'' description;
                capacity = foldl jor (getProp legacyRoom ''capacity'')
                             [getProp legacyRoom ''Capacity'', getProp legacyRoom ''maxCapacity'',
                              getProp legacyRoom ''MaxCapacity''];
                transformedRoom = (if truthy capacity
                                   then setProp transformedRoom ''capacity'' (parseInt10 rt capacity)
                                   else transformedRoom);
                transformedRoom = setIfTruthy transformedRoom ''tags'' (transformTags legacyRoom);
                legacyId = foldl jor (getProp legacyRoom ''id'')
                             [getProp legacyRoom ''Id'', getProp legacyRoom ''RoomId'']
            in case validateCurrentSystemData rt ''room'' ''create'' transformedRoom of
                 Inl m \<Rightarrow> wrap m
               | Inr u \<Rightarrow>
                   Inr (setProp (setProp transformedRoom ''eventId'' targetEventId)
                          ''legacyId'' legacyId)))"

text \<open>
  \<open>transformLegacySession(legacySession, roomId, targetEventId)\<close>; \<open>now\<close> is what
  \<open>Date.now()\<close> returns when the call is made.
\<close>

definition transformLegacySession :: "runtime \<Rightarrow> nat \<Rightarrow> obj \<Rightarrow> jsval \<Rightarrow> jsval \<Rightarrow> obj result" where
  "transformLegacySession rt now legacySession roomId targetEventId =
     (let transformedSession =
            [(''eventId'', targetEventId),
             (''roomId'', roomId),
             (''sourceSystemId'',
                foldl jor (getProp legacySession ''ClientSessionId'')
                  [getProp legacySession ''clientSessionId'', getProp legacySession ''SessionId'',
                   getProp legacySession ''sessionId'', getProp legacySession ''id'',
                   JStr (''legacy-'' @ natToString now)]),
             (''name'',
                foldl jor (getProp legacySession ''SessionName'')
                  [getProp legacySession ''sessionName'', getProp legacySession ''title'',
                   JStr ''Untitled Session'']),
             (''description'',
                foldl jor (getProp legacySession ''Description'')
                  [getProp legacySession ''description'', JNull]),
             (''startsAt'',
                transformDateTime rt
                  (foldl jor (getProp legacySession ''SessionStart'')
                     [getProp legacySession ''sessionStart'', getProp legacySession ''startTime''])),
             (''endsAt'',
                transformDateTime rt
                  (foldl jor (getProp legacySession ''SessionEnd'')
                     [getProp legacySession ''sessionEnd'', getProp legacySession ''endTime'']))]
      in case validateCurrentSystemData rt ''session'' ''create'' transformedSession of
           Inl m \<Rightarrow> Inl (''Session transformation failed: '' @ m)
         | Inr u \<Rightarrow> Inr transformedSession)"

text \<open>\<open>transformLegacySubSession(legacySubSession, sessionId, targetEventId)\<close>\<close>

definition transformLegacySubSession :: "runtime \<Rightarrow> nat \<Rightarrow> obj \<Rightarrow> jsval \<Rightarrow> jsval \<Rightarrow> obj result" where
  "transformLegacySubSession rt now legacySubSession sessionId targetEventId =
     (let transformedSubSession =
            [(''sessionId'', sessionId),
             (''sourceSystemId'',
                foldl jor (getProp legacySubSession ''ClientSubSessionId'')
                  [getProp legacySubSession ''clientSubSessionId'',
                   getProp legacySubSession ''SubSessionId'',
                   getProp legacySubSession ''subSessionId'', getProp legacySubSession ''id'',
                   JStr (''legacy-'' @ natToString now)]),
             (''name'',
                foldl jor (getProp legacySubSession ''subSessionName'')
                  [getProp legacySubSession ''title'', JStr ''Untitled SubSession'']),
             (''description'', jor (getProp legacySubSession ''description'') JNull),
             (''startsAt'', transformDateTime rt (getProp legacySubSession ''startTime'')),
             (''endsAt'', transformDateTime rt (getProp legacySubSession ''endTime'')),
             (''order'',
                foldl jor (getProp legacySubSession ''order'')
                  [getProp legacySubSession ''subSessionOrder'', JNum 1])]
      in case validateCurrentSystemData rt ''subSession'' ''create'' transformedSubSession of
           Inl m \<Rightarrow> Inl (''SubSession transformation failed: '' @ m)
         | Inr u \<Rightarrow> Inr transformedSubSession)"

text \<open>\<open>tags.push(...(Array.isArray(t) ? t : [t]))\<close>\<close>

definition spreadTags :: "jsval \<Rightarrow> jsval list" where
  "spreadTags t = (case t of JArr xs \<Rightarrow> xs | _ \<Rightarrow> [t])"

definition transformUserTags :: "obj \<Rightarrow> jsval" where
  "transformUserTags legacyUser =
     (let tags = (if truthy (getProp legacyUser ''tags'') then spreadTags (getProp legacyUser ''tags'') else []);
          tags = (if truthy (getProp legacyUser ''custom1'') then tags @ [getProp legacyUser ''custom1''] else tags);
          tags = (if truthy (getProp legacyUser ''custom2'') then tags @ [getProp legacyUser ''custom2''] else tags)
      in if length tags > 0 then JArr tags else JNull)"

definition transformUserMetadata :: "obj \<Rightarrow> jsval" where
  "transformUserMetadata legacyUser =
     (let metadata = setIfTruthy [] ''department'' (getProp legacyUser ''custom1'');
          metadata = setIfTruthy metadata ''role'' (getProp legacyUser ''custom2'');
          metadata = setIfTruthy metadata ''registrationDate'' (getProp legacyUser ''registrationDate'')
      in if length metadata > 0 then JObj metadata else JNull)"

definition transformLegacyUser :: "runtime \<Rightarrow> obj \<Rightarrow> jsval \<Rightarrow> obj result" where
  "transformLegacyUser rt legacyUser targetEventId =
     (let transformedUser =
            [(''eventId'', targetEventId),
             (''email'', getProp legacyUser ''email''),
             (''firstName'', getProp legacyUser ''firstName''),
             (''lastName'', getProp legacyUser ''lastName''),
             (''company'', jor (getProp legacyUser ''company'') JNull),
             (''jobTitle'', jor (getProp legacyUser ''title'') JNull),
             (''phoneNumber'', jor (getProp legacyUser ''phone'') JNull),
             (''tags'', transformUserTags legacyUser),
             (''metadata'', transformUserMetadata legacyUser),
             (''legacyId'', getProp legacyUser ''id'')]
      in case validateCurrentSystemData rt ''user'' ''create'' transformedUser of
           Inl m \<Rightarrow> Inl (''User transformation failed: '' @ m)
         | Inr u \<Rightarrow> Inr transformedUser)"

section \<open>CurrentSystemApiClient\<close>

text \<open>
  A request handed to the HTTP client of the target system: the API it goes to
  (\<open>event\<close> or \<open>files\<close>), the method, the endpoint key (or the raw path, for the
  connection tests), the URL parameters and the body.
\<close>

record request =
  rq_api :: string
  rq_method :: string
  rq_endpoint :: string
  rq_params :: obj
  rq_data :: "jsval option"

text \<open>
  What the HTTP client reports for a failed request: a response with a status outside
  2xx and its body, no response at all, or a failure before the request was sent. A reply
  is such an error or the body of a 2xx response.
\<close>

datatype axios_error =
    ErrorResponse nat jsval
  | NoResponse string
  | SetupError string

type_synonym reply = "axios_error + jsval"

text \<open>One call that reaches the target system.\<close>

datatype call = Request request | Upload jsval obj

text \<open>
  The target system is a parameter: a state \<open>'w\<close>, its answer to a request and its answer
  to a file upload; \<open>slugify s\<close> is the string function \<open>s.replace(/\s+/g, '-').toLowerCase()\<close>.
  The world the client runs in is that state together with the record of all calls made so
  far and the number of session and sub-session transformations run so far (which indexes
  the clock readings).
\<close>

record 'w target_system =
  transport :: "'w \<Rightarrow> request \<Rightarrow> reply \<times> 'w"
  uploadToTarget :: "'w \<Rightarrow> jsval \<Rightarrow> obj \<Rightarrow> jsval result \<times> 'w"
  slugify :: "string \<Rightarrow> string"

record 'w world =
  calls :: "call list"
  target :: 'w
  tick :: nat

text \<open>\<open>a === b\<close>: primitives are compared by value, objects and arrays by identity.\<close>

fun strictEq :: "jsval \<Rightarrow> jsval \<Rightarrow> bool" where
  "strictEq (JArr xs) b = False"
| "strictEq (JObj kvs) b = False"
| "strictEq a b = (a = b)"

text \<open>
  \<open>xs.find(x => x.key === v)\<close>: the first matching element, \<open>undefined\<close> when there is none;
  a TypeError when an element read on the way is \<open>null\<close> or \<open>undefined\<close>, or when \<open>xs\<close> is
  not an array.
\<close>

fun findBy :: "string \<Rightarrow> jsval \<Rightarrow> jsval list \<Rightarrow> jsval result" where
  "findBy key v [] = Inr JUndefined"
| "findBy key v (x # xs) =
     (if nullish x then Inl (typeErrorRead x key)
      else if strictEq (pget x key) v then Inr x
      else findBy key v xs)"

definition arrayFind :: "string \<Rightarrow> jsval \<Rightarrow> jsval \<Rightarrow> jsval result" where
  "arrayFind key v arr = (case arr of JArr xs \<Rightarrow> findBy key v xs | _ \<Rightarrow> Inl ''find is not a function'')"

definition handleApiError :: "axios_error \<Rightarrow> string \<Rightarrow> string" where
  "handleApiError err apiType =
     (case err of
        ErrorResponse status dat \<Rightarrow>
          (let message = foldl jor (pget dat ''message'')
                           [pget dat ''error'', pget dat ''title'',
                            JStr (''HTTP '' @ natToString status @ '' error'')]
           in ''Current '' @ apiType @ '' API Error ('' @ natToString status @ ''): '' @ toStr message)
      | NoResponse m \<Rightarrow> ''Current '' @ apiType @ '' API Network Error: '' @ m
      | SetupError m \<Rightarrow> ''Current '' @ apiType @ '' API Error: '' @ m)"

text \<open>The endpoint keys of the event API in \<open>config/api-endpoints.json\<close>.\<close>

definition eventApiEndpoints :: "string list" where
  "eventApiEndpoints =
     [''events'', ''eventById'', ''eventLocations'', ''rooms'', ''roomById'', ''sessions'',
      ''sessionById'', ''subSessions'', ''subSessionById'', ''users'', ''userById'',
      ''moderators'', ''moderatorById'']"

text \<open>One request through the HTTP client; the call is recorded in the world.\<close>

definition send :: "'w target_system \<Rightarrow> request \<Rightarrow> 'w world \<Rightarrow> reply \<times> 'w world" where
  "send ts req w =
     (case transport ts (target w) req of
        (rep, t') \<Rightarrow> (rep, w\<lparr>calls := calls w @ [Request req], target := t'\<rparr>))"

text \<open>The unwrapping of a 2xx body at the end of \<open>eventApiRequest\<close>.\<close>

definition unwrapResponse :: "jsval \<Rightarrow> jsval result" where
  "unwrapResponse dat =
     (case dat of
        JObj kvs \<Rightarrow>
          (if ''data'' \<in> fst ` set kvs \<and> ''isSuccess'' \<in> fst ` set kvs
           then (if \<not> truthy (getProp kvs ''isSuccess'')
                 then Inl (''API Error: '' @ toStr (jor (getProp kvs ''message'') (JStr ''Unknown error'')))
                 else Inr (getProp kvs ''data''))
           else Inr dat)
      | _ \<Rightarrow> Inr dat)"

text \<open>
  \<open>eventApiRequest(method, endpointKey, data = null, params = {})\<close>. Building the URL throws
  for an endpoint key the configuration does not have. The request is sent once; a failure
  is logged and thrown on.
\<close>

definition eventApiRequest ::
  "'w target_system \<Rightarrow> string \<Rightarrow> string \<Rightarrow> jsval \<Rightarrow> obj \<Rightarrow> 'w world \<Rightarrow> jsval result \<times> 'w world" where
  "eventApiRequest ts method endpointKey dat params w =
     (if endpointKey \<notin> set eventApiEndpoints
      then (Inl (''Endpoint '' @ sq @ endpointKey @ sq @ '' not found for API type ''
                   @ sq @ ''current-event'' @ sq), w)
      else
        (let req = \<lparr>rq_api = ''event'', rq_method = method, rq_endpoint = endpointKey,
                    rq_params = params,
                    rq_data = (if truthy dat \<and> method \<in> {''POST'', ''PUT'', ''PATCH''}
                               then Some dat else None)\<rparr>
         in case send ts req w of
              (Inl err, w') \<Rightarrow> (Inl (handleApiError err ''event''), w')
            | (Inr body, w') \<Rightarrow> (unwrapResponse body, w')))"

text \<open>\<open>getRooms\<close>, \<open>getSessions\<close>, \<open>getSubSessions\<close>: the list, or \<open>[]\<close> for a falsy answer.\<close>

definition getList ::
  "'w target_system \<Rightarrow> string \<Rightarrow> string \<Rightarrow> jsval \<Rightarrow> 'w world \<Rightarrow> jsval result \<times> 'w world" where
  "getList ts endpointKey what eventId w =
     (case eventApiRequest ts ''GET'' endpointKey JNull [(''eventId'', eventId)] w of
        (Inl m, w') \<Rightarrow>
          (Inl (''Failed to fetch '' @ what @ '' for event '' @ toStr eventId @ '': '' @ m), w')
      | (Inr response, w') \<Rightarrow> (Inr (jor response (JArr [])), w'))"

definition getRooms :: "'w target_system \<Rightarrow> jsval \<Rightarrow> 'w world \<Rightarrow> jsval result \<times> 'w world" where
  "getRooms ts eventId w = getList ts ''rooms'' ''rooms'' eventId w"

definition getSessions :: "'w target_system \<Rightarrow> jsval \<Rightarrow> 'w world \<Rightarrow> jsval result \<times> 'w world" where
  "getSessions ts eventId w = getList ts ''sessions'' ''sessions'' eventId w"

definition getSubSessions :: "'w target_system \<Rightarrow> jsval \<Rightarrow> 'w world \<Rightarrow> jsval result \<times> 'w world" where
  "getSubSessions ts eventId w = getList ts ''subSessions'' ''subsessions'' eventId w"

text \<open>
  The object \<open>createRoom\<close> returns when the target reports a conflict and no existing room
  can be retrieved. Computing its \<open>id\<close> calls \<open>roomData.name.replace\<close>, which throws unless
  the name is a string.
\<close>

definition mockRoom :: "'w target_system \<Rightarrow> obj \<Rightarrow> jsval result" where
  "mockRoom ts roomData =
     (case getProp roomData ''name'' of
        JStr n \<Rightarrow>
          Inr (JObj [(''id'', JStr (''existing-'' @ slugify ts n)),
                     (''name'', JStr n),
                     (''displayName'', getProp roomData ''displayName''),
                     (''eventLocationId'', getProp roomData ''eventLocationId''),
                     (''_isExisting'', JBool True)])
      | v \<Rightarrow> (if nullish v then Inl (typeErrorRead v ''replace'')
               else Inl ''roomData.name.replace is not a function''))"

text \<open>The \<open>catch\<close> block of \<open>createRoom\<close>, entered with the message of the caught error.\<close>

definition createRoomCatch ::
  "'w target_system \<Rightarrow> obj \<Rightarrow> string \<Rightarrow> 'w world \<Rightarrow> jsval result \<times> 'w world" where
  "createRoomCatch ts roomData m w =
     (if str_includes m ''409'' \<and> str_includes m ''already exists''
      then
        (case getRooms ts (getProp roomData ''eventId'') w of
           (Inl getRoomError, w') \<Rightarrow> (mockRoom ts roomData, w')
         | (Inr existingRooms, w') \<Rightarrow>
             (case arrayFind ''name'' (getProp roomData ''name'') existingRooms of
                Inl getRoomError \<Rightarrow> (mockRoom ts roomData, w')
              | Inr existingRoom \<Rightarrow>
                  (if truthy existingRoom then (Inr existingRoom, w')
                   else (mockRoom ts roomData, w'))))
      else (Inl (''Failed to create room '' @ dq @ toStr (getProp roomData ''name'') @ dq
                   @ '': '' @ m), w))"

text \<open>
  The \<open>try\<close> block shared by the create methods: the POST, then the log line that reads
  \<open>response.id\<close> (a TypeError when the answer is \<open>null\<close> or \<open>undefined\<close>).
\<close>

definition postEntity ::
  "'w target_system \<Rightarrow> string \<Rightarrow> obj \<Rightarrow> jsval \<Rightarrow> 'w world \<Rightarrow> jsval result \<times> 'w world" where
  "postEntity ts endpointKey dat eventId w =
     (case eventApiRequest ts ''POST'' endpointKey (JObj dat) [(''eventId'', eventId)] w of
        (Inl m, w') \<Rightarrow> (Inl m, w')
      | (Inr response, w') \<Rightarrow>
          (if nullish response then (Inl (typeErrorRead response ''id''), w')
           else (Inr response, w')))"

definition createRoom :: "'w target_system \<Rightarrow> obj \<Rightarrow> 'w world \<Rightarrow> jsval result \<times> 'w world" where
  "createRoom ts roomData w =
     (case postEntity ts ''rooms'' roomData (getProp roomData ''eventId'') w of
        (Inr response, w') \<Rightarrow> (Inr response, w')
      | (Inl m, w') \<Rightarrow> createRoomCatch ts roomData m w')"

definition updateSession ::
  "'w target_system \<Rightarrow> jsval \<Rightarrow> obj \<Rightarrow> 'w world \<Rightarrow> jsval result \<times> 'w world" where
  "updateSession ts sessionId sessionData w =
     (case eventApiRequest ts ''PUT'' ''sessionById'' (JObj sessionData)
             [(''eventId'', getProp sessionData ''eventId''), (''sessionId'', sessionId)] w of
        (Inl m, w') \<Rightarrow>
          (Inl (''Failed to update session '' @ dq @ toStr sessionId @ dq @ '': '' @ m), w')
      | (Inr response, w') \<Rightarrow> (Inr response, w'))"

text \<open>
  \<open>getSessionBySourceSystemId\<close> and \<open>getSubSessionBySourceSystemId\<close>: every failure of the
  lookup is swallowed and answered with \<open>null\<close>.
\<close>

definition findBySourceSystemId ::
  "(jsval \<Rightarrow> 'w world \<Rightarrow> jsval result \<times> 'w world) \<Rightarrow> jsval \<Rightarrow> jsval \<Rightarrow> 'w world \<Rightarrow> jsval \<times> 'w world" where
  "findBySourceSystemId fetch eventId sourceSystemId w =
     (case fetch eventId w of
        (Inl m, w') \<Rightarrow> (JNull, w')
      | (Inr entities, w') \<Rightarrow>
          (case arrayFind ''sourceSystemId'' sourceSystemId entities of
             Inl m \<Rightarrow> (JNull, w')
           | Inr found \<Rightarrow> (found, w')))"

definition getSessionBySourceSystemId ::
  "'w target_system \<Rightarrow> jsval \<Rightarrow> jsval \<Rightarrow> 'w world \<Rightarrow> jsval \<times> 'w world" where
  "getSessionBySourceSystemId ts eventId sourceSystemId w =
     findBySourceSystemId (getSessions ts) eventId sourceSystemId w"

definition getSubSessionBySourceSystemId ::
  "'w target_system \<Rightarrow> jsval \<Rightarrow> jsval \<Rightarrow> 'w world \<Rightarrow> jsval \<times> 'w world" where
  "getSubSessionBySourceSystemId ts eventId sourceSystemId w =
     findBySourceSystemId (getSubSessions ts) eventId sourceSystemId w"

definition mockSession :: "obj \<Rightarrow> jsval" where
  "mockSession sessionData =
     JObj [(''id'', JStr (''existing-'' @ toStr (getProp sessionData ''sourceSystemId''))),
           (''name'', getProp sessionData ''name''),
           (''sourceSystemId'', getProp sessionData ''sourceSystemId''),
           (''eventId'', getProp sessionData ''eventId''),
           (''roomId'', getProp sessionData ''roomId''),
           (''_isExisting'', JBool True)]"

text \<open>
  The inner \<open>try\<close> of the conflict branches: look the entity up by its \<open>sourceSystemId\<close>
  and update it when found. \<open>Some r\<close> is the updated entity that is returned; \<open>None\<close> means
  the block fell through (nothing found, or an error that was caught and logged).
\<close>

definition lookupAndUpdate ::
  "(jsval \<Rightarrow> jsval \<Rightarrow> 'w world \<Rightarrow> jsval \<times> 'w world)
     \<Rightarrow> (jsval \<Rightarrow> 'w world \<Rightarrow> jsval result \<times> 'w world)
     \<Rightarrow> jsval \<Rightarrow> jsval \<Rightarrow> 'w world \<Rightarrow> jsval option \<times> 'w world" where
  "lookupAndUpdate lookup update eventId sourceSystemId w =
     (case lookup eventId sourceSystemId w of
        (existing, w1) \<Rightarrow>
          (if truthy existing
           then (case update (pget existing ''id'') w1 of
                   (Inl updateError, w2) \<Rightarrow> (None, w2)
                 | (Inr updated, w2) \<Rightarrow> (if nullish updated then (None, w2) else (Some updated, w2)))
           else (None, w1)))"

text \<open>\<open>createSession\<close> is \<open>createOrUpdateSession\<close>.\<close>

definition createOrUpdateSession ::
  "'w target_system \<Rightarrow> obj \<Rightarrow> 'w world \<Rightarrow> jsval result \<times> 'w world" where
  "createOrUpdateSession ts sessionData w =
     (case postEntity ts ''sessions'' sessionData (getProp sessionData ''eventId'') w of
        (Inr response, w') \<Rightarrow> (Inr response, w')
      | (Inl m, w') \<Rightarrow>
          (if str_includes m ''409'' \<and> str_includes m ''already in use''
           then
             (case lookupAndUpdate (getSessionBySourceSystemId ts)
                     (\<lambda>existingId. updateSession ts existingId sessionData)
                     (getProp sessionData ''eventId'') (getProp sessionData ''sourceSystemId'') w' of
                (Some updatedSession, w2) \<Rightarrow> (Inr updatedSession, w2)
              | (None, w2) \<Rightarrow> (Inr (mockSession sessionData), w2))
           else (Inl (''Failed to create session '' @ dq @ toStr (getProp sessionData ''name'') @ dq
                        @ '': '' @ m), w')))"

definition createSession :: "'w target_system \<Rightarrow> obj \<Rightarrow> 'w world \<Rightarrow> jsval result \<times> 'w world" where
  "createSession ts sessionData w = createOrUpdateSession ts sessionData w"

text \<open>The update payload of \<open>updateSubSession\<close>, after the undefined fields are deleted.\<close>

definition updatePayload :: "obj \<Rightarrow> obj" where
  "updatePayload subSessionData =
     filter (\<lambda>kv. snd kv \<noteq> JUndefined)
       [(''name'', getProp subSessionData ''name''),
        (''description'', getProp subSessionData ''description''),
        (''startsAt'', getProp subSessionData ''startsAt''),
        (''endsAt'', getProp subSessionData ''endsAt''),
        (''order'', getProp subSessionData ''order'')]"

text \<open>\<open>updateSubSession(subSessionId, subSessionData, eventId = null)\<close>\<close>

definition updateSubSession ::
  "'w target_system \<Rightarrow> jsval \<Rightarrow> obj \<Rightarrow> jsval \<Rightarrow> 'w world \<Rightarrow> jsval result \<times> 'w world" where
  "updateSubSession ts subSessionId subSessionData eventId w =
     (let targetEventId = jor eventId (getProp subSessionData ''eventId'');
          wrap = (\<lambda>m. Inl (''Failed to update subsession '' @ dq @ toStr subSessionId @ dq @ '': '' @ m))
      in if \<not> truthy targetEventId then (wrap ''EventId is required for subsession update'', w)
         else
           (case eventApiRequest ts ''PUT'' ''subSessionById'' (JObj (updatePayload subSessionData))
                   [(''eventId'', targetEventId), (''subSessionId'', subSessionId)] w of
              (Inl m, w') \<Rightarrow> (wrap m, w')
            | (Inr response, w') \<Rightarrow> (Inr response, w')))"

definition mockSubSession :: "obj \<Rightarrow> jsval" where
  "mockSubSession subSessionData =
     JObj [(''id'', JStr (''existing-'' @ toStr (getProp subSessionData ''sourceSystemId''))),
           (''name'', getProp subSessionData ''name''),
           (''sourceSystemId'', getProp subSessionData ''sourceSystemId''),
           (''sessionId'', getProp subSessionData ''sessionId''),
           (''_isExisting'', JBool True)]"

text \<open>
  \<open>createOrUpdateSubSession(subSessionData, eventId = null)\<close>: a lookup first (an existing
  sub-session is updated; a failed update is logged and creation goes on), then the POST,
  then the conflict branch.
\<close>

definition createOrUpdateSubSession ::
  "'w target_system \<Rightarrow> obj \<Rightarrow> jsval \<Rightarrow> 'w world \<Rightarrow> jsval result \<times> 'w world" where
  "createOrUpdateSubSession ts subSessionData eventId w =
     (let targetEventId = jor eventId (getProp subSessionData ''eventId'');
          sourceSystemId = getProp subSessionData ''sourceSystemId'';
          tryUpdate = lookupAndUpdate (getSubSessionBySourceSystemId ts)
                        (\<lambda>existingId. updateSubSession ts existingId subSessionData targetEventId)
                        targetEventId sourceSystemId
      in if \<not> truthy targetEventId then (Inl ''EventId is required for subsession creation'', w)
         else
           (case tryUpdate w of
              (Some updatedSubSession, w1) \<Rightarrow> (Inr updatedSubSession, w1)
            | (None, w1) \<Rightarrow>
                (case postEntity ts ''subSessions'' subSessionData targetEventId w1 of
                   (Inr response, w2) \<Rightarrow> (Inr response, w2)
                 | (Inl m, w2) \<Rightarrow>
                     (if str_includes m ''409'' \<and> str_includes m ''already in use''
                      then
                        (case tryUpdate w2 of
                           (Some updatedSubSession, w3) \<Rightarrow> (Inr updatedSubSession, w3)
                         | (None, w3) \<Rightarrow> (Inr (mockSubSession subSessionData), w3))
                      else (Inl (''Failed to create subsession '' @ dq
                                   @ toStr (getProp subSessionData ''name'') @ dq @ '': '' @ m), w2)))))"

text \<open>\<open>createSubSession(subSessionData)\<close> passes no event id.\<close>

definition createSubSession :: "'w target_system \<Rightarrow> obj \<Rightarrow> 'w world \<Rightarrow> jsval result \<times> 'w world" where
  "createSubSession ts subSessionData w = createOrUpdateSubSession ts subSessionData JNull w"

definition createUser :: "'w target_system \<Rightarrow> obj \<Rightarrow> 'w world \<Rightarrow> jsval result \<times> 'w world" where
  "createUser ts userData w =
     (case postEntity ts ''users'' userData (getProp userData ''eventId'') w of
        (Inr response, w') \<Rightarrow> (Inr response, w')
      | (Inl m, w') \<Rightarrow>
          (Inl (''Failed to create user '' @ dq @ toStr (getProp userData ''email'') @ dq @ '': '' @ m), w'))"

definition createModerator :: "'w target_system \<Rightarrow> obj \<Rightarrow> 'w world \<Rightarrow> jsval result \<times> 'w world" where
  "createModerator ts moderatorData w =
     (case postEntity ts ''moderators'' moderatorData (getProp moderatorData ''eventId'') w of
        (Inr response, w') \<Rightarrow> (Inr response, w')
      | (Inl m, w') \<Rightarrow> (Inl (''Failed to create moderator: '' @ m), w'))"

text \<open>A bare GET of a path on one of the two HTTP clients, as the connection test issues it.\<close>

definition rawGet :: "'w target_system \<Rightarrow> string \<Rightarrow> string \<Rightarrow> 'w world \<Rightarrow> jsval result \<times> 'w world" where
  "rawGet ts apiType path w =
     (case send ts \<lparr>rq_api = apiType, rq_method = ''GET'', rq_endpoint = path,
                    rq_params = [], rq_data = None\<rparr> w of
        (Inl err, w') \<Rightarrow> (Inl (handleApiError err apiType), w')
      | (Inr body, w') \<Rightarrow> (Inr body, w'))"

definition testConnection :: "'w target_system \<Rightarrow> 'w world \<Rightarrow> unit result \<times> 'w world" where
  "testConnection ts w =
     (let fallback = (\<lambda>w'.
            case rawGet ts ''event'' ''/Events'' w' of
              (Inl fallbackError, w2) \<Rightarrow> (Inl (''Current API connection failed: '' @ fallbackError), w2)
            | (Inr body, w2) \<Rightarrow> (Inr (), w2))
      in case rawGet ts ''event'' ''/health'' w of
           (Inl m, w1) \<Rightarrow> fallback w1
         | (Inr body, w1) \<Rightarrow>
             (case rawGet ts ''files'' ''/health'' w1 of
                (Inl m, w2) \<Rightarrow> fallback w2
              | (Inr body2, w2) \<Rightarrow> (Inr (), w2)))"

section \<open>MigrationResult\<close>

text \<open>A JavaScript number that has been computed with: an integer or \<open>NaN\<close>.\<close>

datatype jsnum = Num int | NaN

text \<open>\<open>x += v\<close>, where \<open>v\<close> is a number or (\<open>None\<close>) \<open>undefined\<close>.\<close>

fun plusAssign :: "jsnum \<Rightarrow> int option \<Rightarrow> jsnum" where
  "plusAssign (Num a) (Some b) = Num (a + b)"
| "plusAssign (Num a) None = NaN"
| "plusAssign NaN v = NaN"

record statistics =
  roomsProcessed :: jsnum
  sessionsCreated :: jsnum
  subSessionsCreated :: jsnum
  usersProcessed :: jsnum
  moderatorsCreated :: jsnum
  filesUploaded :: jsnum
  totalFileSizeBytes :: jsnum
  apiCallsLegacy :: jsnum
  apiCallsCurrent :: jsnum
  parallelOperations :: jsnum
  averageRoomProcessingTime :: jsnum
  averageSessionProcessingTime :: jsnum
  averageFileUploadTime :: jsnum

text \<open>
  An entry of the error list: one made by \<open>addError\<close> (context, message) or one pushed by a
  processing loop (context, error). Time stamps and stack traces are left out.
\<close>

datatype report_error = AddedError string string | TaskError string string

record migration_result =
  mr_success :: bool
  mr_dryRun :: bool
  mr_finished :: bool
  mr_errors :: "report_error list"
  mr_warnings :: "(string \<times> string) list"
  mr_statistics :: statistics

text \<open>\<open>new MigrationResult()\<close>\<close>

definition newMigrationResult :: migration_result where
  "newMigrationResult =
     \<lparr>mr_success = False, mr_dryRun = False, mr_finished = False, mr_errors = [], mr_warnings = [],
      mr_statistics =
        \<lparr>roomsProcessed = Num 0, sessionsCreated = Num 0, subSessionsCreated = Num 0,
         usersProcessed = Num 0, moderatorsCreated = Num 0, filesUploaded = Num 0,
         totalFileSizeBytes = Num 0, apiCallsLegacy = Num 0, apiCallsCurrent = Num 0,
         parallelOperations = Num 0, averageRoomProcessingTime = Num 0,
         averageSessionProcessingTime = Num 0, averageFileUploadTime = Num 0\<rparr>\<rparr>"

definition addError :: "string \<Rightarrow> string \<Rightarrow> migration_result \<Rightarrow> migration_result" where
  "addError context message res =
     (let res1 = res\<lparr>mr_errors := mr_errors res @ [AddedError context message]\<rparr>
      in if length (mr_errors res1) = 1 then res1\<lparr>mr_success := False\<rparr> else res1)"

section \<open>MigrationService\<close>

text \<open>
  A session of the source system: the record itself and its \<open>subSessions\<close> property, an
  array of records when present.
\<close>

record legacy_session =
  ls_record :: obj
  ls_subSessions :: "obj list option"

text \<open>
  The client of the source system is a parameter. The source is read-only and its records
  do not change during a run, so each operation is a function of its arguments: the value it
  returns, or the message of the error it throws.
\<close>

record legacy_client =
  legacyTestConnection :: "unit result"
  legacyGetRooms :: "string \<Rightarrow> obj list result"
  legacyGetRoom :: "string \<Rightarrow> string \<Rightarrow> obj option result"
  legacyGetSessions :: "jsval \<Rightarrow> jsval \<Rightarrow> legacy_session list result"
  legacyGetUsers :: "jsval \<Rightarrow> jsval \<Rightarrow> obj list result"
  legacyGetFiles :: "jsval \<Rightarrow> jsval \<Rightarrow> obj list result"
  legacyDownloadFile :: "jsval \<Rightarrow> jsval result"

text \<open>
  Everything the service is constructed with. \<open>envCheck\<close> is the outcome of
  \<open>ConfigManager.validateEnvironment()\<close> (\<open>Some msg\<close> when it throws), \<open>dateNow k\<close> the value of
  \<open>Date.now()\<close> during the \<open>k\<close>-th transformation of the run, \<open>taskDuration i\<close> the duration
  measured for the room task at position \<open>i\<close>.
\<close>

record 'w env =
  e_runtime :: runtime
  e_legacy :: legacy_client
  e_target :: "'w target_system"
  envCheck :: "string option"
  dateNow :: "nat \<Rightarrow> nat"
  taskDuration :: "nat \<Rightarrow> nat"

record configuration =
  c_legacyEventName :: string
  c_targetEventId :: jsval
  c_roomName :: string
  c_migrateAllRooms :: bool
  c_verbose :: bool
  c_skipFiles :: bool
  c_dryRun :: bool

text \<open>\<open>fileService.uploadFile\<close>: one upload call to the target system.\<close>

definition uploadFile :: "'w target_system \<Rightarrow> jsval \<Rightarrow> obj \<Rightarrow> 'w world \<Rightarrow> jsval result \<times> 'w world" where
  "uploadFile ts fileData fileMetadata w =
     (case uploadToTarget ts (target w) fileData fileMetadata of
        (r, t') \<Rightarrow> (r, w\<lparr>calls := calls w @ [Upload fileData fileMetadata], target := t'\<rparr>))"

text \<open>
  \<open>processSubSessions\<close>: every sub-session is transformed and created in turn; an error of
  either step is caught and written to the log, and the method returns nothing.
\<close>

fun processSubSessions ::
  "'w env \<Rightarrow> obj list \<Rightarrow> jsval \<Rightarrow> jsval \<Rightarrow> 'w world \<Rightarrow> 'w world" where
  "processSubSessions env [] sessionId targetEventId w = w"
| "processSubSessions env (subSession # subSessions) sessionId targetEventId w =
     (let w0 = w\<lparr>tick := tick w + 1\<rparr>
      in case transformLegacySubSession (e_runtime env) (dateNow env (tick w)) subSession
                sessionId targetEventId of
           Inl m \<Rightarrow> processSubSessions env subSessions sessionId targetEventId w0
         | Inr transformedSubSession \<Rightarrow>
             (case createSubSession (e_target env) transformedSubSession w0 of
                (r, w1) \<Rightarrow> processSubSessions env subSessions sessionId targetEventId w1))"

text \<open>\<open>processSessions\<close> returns \<open>{ created, errors }\<close>.\<close>

fun processSessions ::
  "'w env \<Rightarrow> legacy_session list \<Rightarrow> jsval \<Rightarrow> jsval \<Rightarrow> nat \<times> report_error list \<Rightarrow> 'w world
     \<Rightarrow> (nat \<times> report_error list) \<times> 'w world" where
  "processSessions env [] roomId targetEventId acc w = (acc, w)"
| "processSessions env (session # sessions) roomId targetEventId (created, errs) w =
     (let failed = (\<lambda>m. (created, errs @ [TaskError (''Session processing: ''
                                @ toStr (getProp (ls_record session) ''title'')) m]));
          w0 = w\<lparr>tick := tick w + 1\<rparr>
      in case transformLegacySession (e_runtime env) (dateNow env (tick w)) (ls_record session)
                roomId targetEventId of
           Inl m \<Rightarrow> processSessions env sessions roomId targetEventId (failed m) w0
         | Inr transformedSession \<Rightarrow>
             (case createSession (e_target env) transformedSession w0 of
                (Inl m, w1) \<Rightarrow> processSessions env sessions roomId targetEventId (failed m) w1
              | (Inr createdSession, w1) \<Rightarrow>
                  (let w2 = (case ls_subSessions session of
                               Some (sub # subs) \<Rightarrow>
                                 processSubSessions env (sub # subs) (pget createdSession ''id'')
                                   targetEventId w1
                             | _ \<Rightarrow> w1)
                   in processSessions env sessions roomId targetEventId (created + 1, errs) w2)))"

text \<open>\<open>processUsers\<close> returns \<open>{ processed, errors }\<close>.\<close>

fun processUsers ::
  "'w env \<Rightarrow> obj list \<Rightarrow> jsval \<Rightarrow> jsval \<Rightarrow> nat \<times> report_error list \<Rightarrow> 'w world
     \<Rightarrow> (nat \<times> report_error list) \<times> 'w world" where
  "processUsers env [] roomId targetEventId acc w = (acc, w)"
| "processUsers env (user # users) roomId targetEventId (processed, errs) w =
     (let failed = (\<lambda>n m. (n, errs @ [TaskError (''User processing: ''
                                @ toStr (getProp user ''email'')) m]))
      in case transformLegacyUser (e_runtime env) user targetEventId of
           Inl m \<Rightarrow> processUsers env users roomId targetEventId (failed processed m) w
         | Inr transformedUser \<Rightarrow>
             (case createUser (e_target env) transformedUser w of
                (Inl m, w1) \<Rightarrow> processUsers env users roomId targetEventId (failed processed m) w1
              | (Inr createdUser, w1) \<Rightarrow>
                  (if truthy (getProp user ''isModerator'')
                   then
                     (case transformLegacyModerator (e_runtime env) user (pget createdUser ''id'')
                             roomId targetEventId of
                        Inl m \<Rightarrow>
                          processUsers env users roomId targetEventId (failed (processed + 1) m) w1
                      | Inr moderatorData \<Rightarrow>
                          (case createModerator (e_target env) moderatorData w1 of
                             (Inl m, w2) \<Rightarrow>
                               processUsers env users roomId targetEventId
                                 (failed (processed + 1) m) w2
                           | (Inr createdModerator, w2) \<Rightarrow>
                               processUsers env users roomId targetEventId
                                 (processed + 1, errs) w2))
                   else processUsers env users roomId targetEventId (processed + 1, errs) w1)))"

text \<open>
  \<open>processFiles\<close> returns \<open>{ uploaded, errors }\<close>. With \<open>verbose\<close> set, the log line after the
  upload reads \<open>uploadResult.id\<close>.
\<close>

fun processFiles ::
  "'w env \<Rightarrow> bool \<Rightarrow> obj list \<Rightarrow> jsval \<Rightarrow> jsval \<Rightarrow> nat \<times> report_error list \<Rightarrow> 'w world
     \<Rightarrow> (nat \<times> report_error list) \<times> 'w world" where
  "processFiles env vb [] roomId targetEventId acc w = (acc, w)"
| "processFiles env vb (file # files) roomId targetEventId (uploaded, errs) w =
     (let failed = (\<lambda>n m. (n, errs @ [TaskError (''File processing: ''
                                @ toStr (getProp file ''fileName'')) m]))
      in case legacyDownloadFile (e_legacy env) (getProp file ''downloadUrl'') of
           Inl m \<Rightarrow> processFiles env vb files roomId targetEventId (failed uploaded m) w
         | Inr fileData \<Rightarrow>
             (case transformLegacyFile (e_runtime env) file roomId targetEventId of
                Inl m \<Rightarrow> processFiles env vb files roomId targetEventId (failed uploaded m) w
              | Inr transformedFile \<Rightarrow>
                  (case uploadFile (e_target env) fileData transformedFile w of
                     (Inl m, w1) \<Rightarrow>
                       processFiles env vb files roomId targetEventId (failed uploaded m) w1
                   | (Inr uploadResult, w1) \<Rightarrow>
                       (if vb \<and> nullish uploadResult
                        then processFiles env vb files roomId targetEventId
                               (failed (uploaded + 1) (typeErrorRead uploadResult ''id'')) w1
                        else processFiles env vb files roomId targetEventId
                               (uploaded + 1, errs) w1))))"

text \<open>The object \<open>processRoom\<close> returns.\<close>

record room_result =
  rr_success :: bool
  rr_errors :: "report_error list"
  rr_sessionsCreated :: nat
  rr_filesUploaded :: nat
  rr_usersProcessed :: nat

text \<open>
  \<open>processRoom(room, targetEventId, { verbose, skipFiles })\<close>. The steps of the \<open>try\<close> block
  are chained; an error thrown by a step ends the block with what has been recorded so far,
  and the \<open>catch\<close> marks the room as failed. The function itself never throws.
\<close>

definition roomFailed :: "obj \<Rightarrow> string \<Rightarrow> room_result \<Rightarrow> room_result" where
  "roomFailed room m rr =
     rr\<lparr>rr_success := False,
        rr_errors := rr_errors rr @ [TaskError (''Room processing: '' @ toStr (getProp room ''name'')) m]\<rparr>"

definition processRoomFiles ::
  "'w env \<Rightarrow> configuration \<Rightarrow> obj \<Rightarrow> jsval \<Rightarrow> room_result \<Rightarrow> 'w world \<Rightarrow> room_result \<times> 'w world" where
  "processRoomFiles env cfg room roomId rr w =
     (if c_skipFiles cfg then (rr, w)
      else case legacyGetFiles (e_legacy env) (getProp room ''eventName'') (getProp room ''name'') of
             Inl m \<Rightarrow> (roomFailed room m rr, w)
           | Inr [] \<Rightarrow> (rr, w)
           | Inr (file # files) \<Rightarrow>
               (case processFiles env (c_verbose cfg) (file # files) roomId (c_targetEventId cfg) (0, []) w of
                  ((uploaded, errs), w1) \<Rightarrow>
                    (rr\<lparr>rr_filesUploaded := uploaded, rr_errors := rr_errors rr @ errs\<rparr>, w1)))"

definition processRoomUsers ::
  "'w env \<Rightarrow> configuration \<Rightarrow> obj \<Rightarrow> jsval \<Rightarrow> room_result \<Rightarrow> 'w world \<Rightarrow> room_result \<times> 'w world" where
  "processRoomUsers env cfg room roomId rr w =
     (case legacyGetUsers (e_legacy env) (getProp room ''eventName'') (getProp room ''name'') of
        Inl m \<Rightarrow> (roomFailed room m rr, w)
      | Inr [] \<Rightarrow> processRoomFiles env cfg room roomId rr w
      | Inr (user # users) \<Rightarrow>
          (case processUsers env (user # users) roomId (c_targetEventId cfg) (0, []) w of
             ((processed, errs), w1) \<Rightarrow>
               processRoomFiles env cfg room roomId
                 (rr\<lparr>rr_usersProcessed := processed, rr_errors := rr_errors rr @ errs\<rparr>) w1))"

definition processRoomSessions ::
  "'w env \<Rightarrow> configuration \<Rightarrow> obj \<Rightarrow> jsval \<Rightarrow> room_result \<Rightarrow> 'w world \<Rightarrow> room_result \<times> 'w world" where
  "processRoomSessions env cfg room roomId rr w =
     (case legacyGetSessions (e_legacy env) (getProp room ''eventName'') (getProp room ''name'') of
        Inl m \<Rightarrow> (roomFailed room m rr, w)
      | Inr [] \<Rightarrow> processRoomUsers env cfg room roomId rr w
      | Inr (session # sessions) \<Rightarrow>
          (case processSessions env (session # sessions) roomId (c_targetEventId cfg) (0, []) w of
             ((created, errs), w1) \<Rightarrow>
               processRoomUsers env cfg room roomId
                 (rr\<lparr>rr_sessionsCreated := created, rr_errors := rr_errors rr @ errs\<rparr>) w1))"

definition processRoom ::
  "'w env \<Rightarrow> configuration \<Rightarrow> obj \<Rightarrow> 'w world \<Rightarrow> room_result \<times> 'w world" where
  "processRoom env cfg room w =
     (let rr = \<lparr>rr_success = True, rr_errors = [], rr_sessionsCreated = 0, rr_filesUploaded = 0,
                rr_usersProcessed = 0\<rparr>
      in case transformLegacyRoom (e_runtime env) room (c_targetEventId cfg) JNull of
           Inl m \<Rightarrow> (roomFailed room m rr, w)
         | Inr transformedRoom \<Rightarrow>
             (case createRoom (e_target env) transformedRoom w of
                (Inl m, w1) \<Rightarrow> (roomFailed room m rr, w1)
              | (Inr createdRoom, w1) \<Rightarrow>
                  processRoomSessions env cfg room (pget createdRoom ''id'') rr w1))"

text \<open>
  The message of the TypeError raised by \<open>errors.push(...undefined)\<close> (the wording is the
  engine's).
\<close>

definition spreadTypeError :: string where
  "spreadTypeError = ''Spread syntax requires ...iterable[Symbol.iterator] to be a function''"

text \<open>
  \<open>aggregateRoomResults(roomResults, result)\<close>, applied to the array \<open>processRooms\<close> returns.
  Its entries are the objects built by \<open>processRooms\<close>, with the properties \<open>success\<close>,
  \<open>room\<close>, \<open>result\<close> or \<open>error\<close>, \<open>duration\<close> and \<open>index\<close>; the result of \<open>processRoom\<close> sits
  under \<open>result\<close>. The loop reads \<open>sessionsCreated\<close>, \<open>filesUploaded\<close>, \<open>usersProcessed\<close> and
  \<open>errors\<close> from the entry itself, where they are \<open>undefined\<close>: the additions give \<open>NaN\<close>
  and the spread of \<open>undefined\<close> throws. The result object is updated in place, so the
  changes made before the throw remain.
\<close>

definition entryCounter :: "('r, 'a) task_result \<Rightarrow> int option" where
  "entryCounter entry = None"

definition entryErrors :: "('r, 'a) task_result \<Rightarrow> report_error list option" where
  "entryErrors entry = None"

fun aggregateRoomResults ::
  "('r, 'a) task_result list \<Rightarrow> migration_result \<Rightarrow> unit result \<times> migration_result" where
  "aggregateRoomResults [] res = (Inr (), res)"
| "aggregateRoomResults (roomResult # roomResults) res =
     (let st = mr_statistics res;
          res1 = (if tr_success roomResult
                  then res\<lparr>mr_statistics :=
                         st\<lparr>roomsProcessed := plusAssign (roomsProcessed st) (Some 1),
                            sessionsCreated := plusAssign (sessionsCreated st) (entryCounter roomResult),
                            filesUploaded := plusAssign (filesUploaded st) (entryCounter roomResult),
                            usersProcessed := plusAssign (usersProcessed st) (entryCounter roomResult)\<rparr>\<rparr>
                  else res)
      in case entryErrors roomResult of
           None \<Rightarrow> (Inl spreadTypeError, res1)
         | Some errs \<Rightarrow>
             aggregateRoomResults roomResults (res1\<lparr>mr_errors := mr_errors res1 @ errs\<rparr>))"

text \<open>
  \<open>migrateAllRooms(configuration, result)\<close>. The progress callback handed to
  \<open>processRooms\<close> finds no operation registered under its name, logs a warning and returns.
\<close>

definition setRoomsProcessed :: "int \<Rightarrow> migration_result \<Rightarrow> migration_result" where
  "setRoomsProcessed n res = res\<lparr>mr_statistics := (mr_statistics res)\<lparr>roomsProcessed := Num n\<rparr>\<rparr>"

definition migrateAllRooms ::
  "'w env \<Rightarrow> pp_statistics \<Rightarrow> configuration \<Rightarrow> migration_result \<Rightarrow> 'w world
     \<Rightarrow> (unit result \<times> migration_result) \<times> 'w world" where
  "migrateAllRooms env pst cfg res w =
     (let rethrow = (\<lambda>m r. (Inl m, addError ''All rooms migration'' m r))
      in case legacyGetRooms (e_legacy env) (c_legacyEventName cfg) of
           Inl m \<Rightarrow> (rethrow m res, w)
         | Inr [] \<Rightarrow> ((Inr (), res), w)
         | Inr (room # rooms) \<Rightarrow>
             (if c_dryRun cfg
              then ((Inr (), (setRoomsProcessed (int (length (room # rooms))) res)\<lparr>mr_dryRun := True\<rparr>), w)
              else
                (case processRooms (taskDuration env) pst (room # rooms)
                        (\<lambda>r w'. case processRoom env cfg r w' of (rr, w2) \<Rightarrow> (Inr rr, w2))
                        (Some (\<lambda>current total. None)) w of
                   (roomResults, (pst', w1)) \<Rightarrow>
                     (case aggregateRoomResults roomResults res of
                        (Inl m, res1) \<Rightarrow> (rethrow m res1, w1)
                      | (Inr u, res1) \<Rightarrow> ((Inr (), res1), w1)))))"

text \<open>\<open>migrateSingleRoom(configuration, result)\<close>\<close>

definition migrateSingleRoom ::
  "'w env \<Rightarrow> configuration \<Rightarrow> migration_result \<Rightarrow> 'w world
     \<Rightarrow> (unit result \<times> migration_result) \<times> 'w world" where
  "migrateSingleRoom env cfg res w =
     (let rethrow = (\<lambda>m r. (Inl m, addError ''Single room migration'' m r))
      in case legacyGetRoom (e_legacy env) (c_legacyEventName cfg) (c_roomName cfg) of
           Inl m \<Rightarrow> (rethrow m res, w)
         | Inr None \<Rightarrow>
             (rethrow (''Room '' @ dq @ c_roomName cfg @ dq @ '' not found in legacy event'') res, w)
         | Inr (Some room) \<Rightarrow>
             (if c_dryRun cfg
              then ((Inr (), (setRoomsProcessed 1 res)\<lparr>mr_dryRun := True\<rparr>), w)
              else
                (case processRoom env cfg room w of
                   (roomResult, w1) \<Rightarrow>
                     (let res1 = setRoomsProcessed 1 res;
                          st = mr_statistics res1;
                          res2 = (if rr_success roomResult
                                  then res1\<lparr>mr_statistics :=
                                         st\<lparr>sessionsCreated := plusAssign (sessionsCreated st)
                                               (Some (int (rr_sessionsCreated roomResult))),
                                            filesUploaded := plusAssign (filesUploaded st)
                                               (Some (int (rr_filesUploaded roomResult))),
                                            usersProcessed := plusAssign (usersProcessed st)
                                               (Some (int (rr_usersProcessed roomResult)))\<rparr>\<rparr>
                                  else res1\<lparr>mr_errors := mr_errors res1 @ rr_errors roomResult\<rparr>)
                      in ((Inr (), res2), w1)))))"

text \<open>\<open>validateEnvironment()\<close>: the first failing check is logged and thrown on.\<close>

definition validateEnvironment :: "'w env \<Rightarrow> 'w world \<Rightarrow> unit result \<times> 'w world" where
  "validateEnvironment env w =
     (case envCheck env of
        Some m \<Rightarrow> (Inl m, w)
      | None \<Rightarrow>
          (case legacyTestConnection (e_legacy env) of
             Inl m \<Rightarrow> (Inl m, w)
           | Inr u \<Rightarrow> testConnection (e_target env) w))"

text \<open>\<open>executeMigration(configuration)\<close> returns the result object on every path.\<close>

definition executeMigration ::
  "'w env \<Rightarrow> pp_statistics \<Rightarrow> configuration \<Rightarrow> 'w world \<Rightarrow> migration_result \<times> 'w world" where
  "executeMigration env pst cfg w =
     (let result = newMigrationResult;
          caught = (\<lambda>m r. (addError ''Migration execution'' m r)\<lparr>mr_finished := True, mr_success := False\<rparr>)
      in case validateEnvironment env w of
           (Inl m, w1) \<Rightarrow> (caught m result, w1)
         | (Inr u, w1) \<Rightarrow>
             (case (if c_migrateAllRooms cfg then migrateAllRooms env pst cfg result w1
                    else migrateSingleRoom env cfg result w1) of
                ((Inl m, res1), w2) \<Rightarrow> (caught m res1, w2)
              | ((Inr u', res1), w2) \<Rightarrow>
                  (res1\<lparr>mr_finished := True, mr_success := (length (mr_errors res1) = 0)\<rparr>, w2)))"

section \<open>Utils.retry\<close>

text \<open>
  \<open>Utils.retry(operation, maxRetries = 3, baseDelay = 1000)\<close>: the operation is attempted up
  to \<open>maxRetries + 1\<close> times; after the failed attempt number \<open>attempt\<close> (counted from 0) the
  loop sleeps \<open>baseDelay * 2 ^ attempt\<close> milliseconds plus a random jitter of less than a
  tenth of that. The model returns the outcome together with the list of delays slept,
  without the jitter. \<open>remaining\<close> is \<open>maxRetries - attempt\<close>.
\<close>

fun retryLoop ::
  "('w \<Rightarrow> 'a result \<times> 'w) \<Rightarrow> nat \<Rightarrow> nat \<Rightarrow> nat \<Rightarrow> 'w \<Rightarrow> nat list
     \<Rightarrow> ('a result \<times> 'w) \<times> nat list" where
  "retryLoop operation baseDelay attempt 0 w slept = (operation w, slept)"
| "retryLoop operation baseDelay attempt (Suc remaining) w slept =
     (case operation w of
        (Inr x, w') \<Rightarrow> ((Inr x, w'), slept)
      | (Inl lastError, w') \<Rightarrow>
          retryLoop operation baseDelay (Suc attempt) remaining w'
            (slept @ [baseDelay * 2 ^ attempt]))"

definition retry ::
  "('w \<Rightarrow> 'a result \<times> 'w) \<Rightarrow> nat \<Rightarrow> nat \<Rightarrow> 'w \<Rightarrow> ('a result \<times> 'w) \<times> nat list" where
  "retry operation maxRetries baseDelay w = retryLoop operation baseDelay 0 maxRetries w []"

section \<open>Notions used in the properties\<close>

text \<open>
  \<open>captured dur f cb i room w out\<close>: the entry \<open>out\<close> is the captured outcome of running the
  processing function \<open>f\<close> on \<open>room\<close> (position \<open>i\<close>) in world \<open>w\<close>: a success entry carrying
  the returned value, a failure entry carrying the thrown message, or (only when a progress
  callback is installed and threw) a failure entry for a room whose processing returned.
\<close>

definition captured ::
  "(nat \<Rightarrow> nat) \<Rightarrow> ('r \<Rightarrow> 'w \<Rightarrow> 'a result \<times> 'w) \<Rightarrow> (nat \<Rightarrow> nat \<Rightarrow> string option) option
     \<Rightarrow> nat \<Rightarrow> 'r \<Rightarrow> 'w \<Rightarrow> ('r, 'a) task_result \<Rightarrow> bool" where
  "captured dur f cb i room w out \<longleftrightarrow>
     tr_room out = Some room \<and> tr_index out = int i \<and> tr_duration out = dur i \<and>
     (case fst (f room w) of
        Inl e \<Rightarrow> \<not> tr_success out \<and> tr_error out = Some e \<and> tr_result out = None
      | Inr v \<Rightarrow> (tr_success out \<and> tr_result out = Some v \<and> tr_error out = None)
                 \<or> (\<not> tr_success out \<and> tr_result out = None \<and> tr_error out \<noteq> None \<and> cb \<noteq> None))"

text \<open>The fields the target schema accepts in a sub-session update.\<close>

definition updatableFields :: "string list" where
  "updatableFields = [''name'', ''description'', ''startsAt'', ''endsAt'', ''order'']"

text \<open>
  \<open>sameChildCounters res res'\<close>: the counters \<open>subSessionsCreated\<close> and \<open>moderatorsCreated\<close> of
  the two result objects agree.
\<close>

definition sameChildCounters :: "migration_result \<Rightarrow> migration_result \<Rightarrow> bool" where
  "sameChildCounters res res' \<longleftrightarrow>
     subSessionsCreated (mr_statistics res') = subSessionsCreated (mr_statistics res) \<and>
     moderatorsCreated (mr_statistics res') = moderatorsCreated (mr_statistics res)"

text \<open>The source fields a session, respectively a sub-session, is identified by.\<close>

definition sessionIdFields :: "string list" where
  "sessionIdFields = [''ClientSessionId'', ''clientSessionId'', ''SessionId'', ''sessionId'', ''id'']"

definition subSessionIdFields :: "string list" where
  "subSessionIdFields =
     [''ClientSubSessionId'', ''clientSubSessionId'', ''SubSessionId'', ''subSessionId'', ''id'']"

text \<open>\<open>identified keys ls\<close>: one of the fields \<open>keys\<close> of the record \<open>ls\<close> is truthy.\<close>

definition identified :: "string list \<Rightarrow> obj \<Rightarrow> bool" where
  "identified keys ls = list_ex (\<lambda>k. truthy (getProp ls k)) keys"

text \<open>The number of POST requests among the calls, and the calls that change the target.\<close>

definition isPost :: "call \<Rightarrow> bool" where
  "isPost c = (case c of Request req \<Rightarrow> rq_method req = ''POST'' | Upload fileData meta \<Rightarrow> False)"

definition posts :: "call list \<Rightarrow> nat" where
  "posts cs = length (filter isPost cs)"

definition mutating :: "call \<Rightarrow> bool" where
  "mutating c = (case c of Request req \<Rightarrow> rq_method req \<noteq> ''GET'' | Upload fileData meta \<Rightarrow> True)"


text \<open>The report of a dry run that found \<open>n\<close> rooms.\<close>

definition dryReport :: "int \<Rightarrow> migration_result" where
  "dryReport n =
     (setRoomsProcessed n newMigrationResult)\<lparr>mr_dryRun := True, mr_finished := True, mr_success := True\<rparr>"

section \<open>Concrete surroundings for the examples\<close>

subsection \<open>Runtimes\<close>

text \<open>
  A runtime whose date parser accepts every string as it is, whose DTO configuration
  accepts every payload, and whose moderator and file transformations always return.
\<close>

definition demoRuntime :: runtime where
  "demoRuntime =
     \<lparr>isoDate = (\<lambda>v. case v of JStr t \<Rightarrow> Some t | _ \<Rightarrow> None),
      parseInt10 = (\<lambda>v. v),
      currentDTOs = (\<lambda>entityType. Some (\<lambda>operation. Some (\<lambda>payload. []))),
      transformLegacyModerator = (\<lambda>user userId roomId eventId.
         Inr [(''eventId'', eventId), (''userId'', userId), (''roomId'', roomId)]),
      transformLegacyFile = (\<lambda>file roomId eventId.
         Inr [(''originalFileName'', getProp file ''fileName''), (''sessionId'', roomId)])\<rparr>"

text \<open>A runtime whose DTO configuration rejects every payload.\<close>

definition strictRuntime :: runtime where
  "strictRuntime = demoRuntime\<lparr>currentDTOs := (\<lambda>entityType. Some (\<lambda>operation. Some (\<lambda>payload. [''rejected''])))\<rparr>"

text \<open>A runtime whose DTO configuration rejects the payloads of one entity type.\<close>

definition rejecting :: "string \<Rightarrow> runtime" where
  "rejecting entity =
     demoRuntime\<lparr>currentDTOs := (\<lambda>entityType. Some (\<lambda>operation. Some (\<lambda>payload.
        if entityType = entity then [''rejected''] else [])))\<rparr>"

subsection \<open>Target systems\<close>

text \<open>A target that accepts every request and answers with an entity of id \<open>t-1\<close>.\<close>

definition acceptAll :: "unit target_system" where
  "acceptAll =
     \<lparr>transport = (\<lambda>s req. (Inr (JObj [(''id'', JStr ''t-1'')]), s)),
      uploadToTarget = (\<lambda>s fileData meta. (Inr (JObj [(''id'', JStr ''f-1'')]), s)),
      slugify = (\<lambda>n. n)\<rparr>"

text \<open>
  A target on which every POST is rejected with status 409 and the given message, every GET
  is answered with the given list, and every other request succeeds.
\<close>

definition conflictTarget :: "string \<Rightarrow> jsval \<Rightarrow> unit target_system" where
  "conflictTarget msg existing =
     \<lparr>transport = (\<lambda>s req.
         if rq_method req = ''POST''
         then (Inl (ErrorResponse 409 (JObj [(''message'', JStr msg)])), s)
         else if rq_method req = ''GET'' then (Inr existing, s)
         else (Inr (JObj [(''id'', JStr ''t-1''), (''updated'', JBool True)]), s)),
      uploadToTarget = (\<lambda>s fileData meta. (Inr (JObj [(''id'', JStr ''f-1'')]), s)),
      slugify = (\<lambda>n. n)\<rparr>"




text \<open>
  A target whose first answer is a 503 error and whose later answers are successes; its
  state is the number of requests it has received.
\<close>

definition flakyTarget :: "nat target_system" where
  "flakyTarget =
     \<lparr>transport = (\<lambda>received req.
         if received = 0
         then (Inl (ErrorResponse 503 (JObj [(''message'', JStr ''Service Unavailable'')])), 1)
         else (Inr (JObj [(''id'', JStr ''t-1'')]), Suc received)),
      uploadToTarget = (\<lambda>received fileData meta. (Inr (JObj [(''id'', JStr ''f-1'')]), received)),
      slugify = (\<lambda>n. n)\<rparr>"

text \<open>The world before any call, for a target without state and for the counting target.\<close>

definition emptyWorld :: "unit world" where
  "emptyWorld = \<lparr>calls = [], target = (), tick = 0\<rparr>"

definition freshWorld :: "nat world" where
  "freshWorld = \<lparr>calls = [], target = 0, tick = 0\<rparr>"

subsection \<open>Source records and their payloads\<close>

text \<open>The room \<open>hall\<close> of the source event \<open>expo\<close>, and its transformed payload (a name on which \<open>slugify\<close> is the identity).\<close>

definition hallRoom :: obj where
  "hallRoom = [(''id'', JNum 10), (''name'', JStr ''hall''), (''eventName'', JStr ''expo''),
               (''EventLocationId'', JNum 500)]"

definition hallData :: obj where
  "hallData = [(''eventLocationId'', JNum 500), (''name'', JStr ''hall''),
               (''displayName'', JStr ''hall''), (''eventId'', JNum 46), (''legacyId'', JNum 10)]"

text \<open>A session with an identifier and its payload in room \<open>room-1\<close>; a session without any of the identifier fields and its payload, given the generated identifier.\<close>

definition talk :: obj where
  "talk = [(''id'', JNum 17), (''title'', JStr ''Talk''),
           (''startTime'', JStr ''2025-03-01T09:00:00.000Z''),
           (''endTime'', JStr ''2025-03-01T10:00:00.000Z'')]"

definition talkPayload :: obj where
  "talkPayload =
     [(''eventId'', JNum 46), (''roomId'', JStr ''room-1''), (''sourceSystemId'', JNum 17),
      (''name'', JStr ''Talk''), (''description'', JNull),
      (''startsAt'', JStr ''2025-03-01T09:00:00.000Z''),
      (''endsAt'', JStr ''2025-03-01T10:00:00.000Z'')]"

definition plenary :: obj where
  "plenary = [(''title'', JStr ''Opening''),
              (''startTime'', JStr ''2025-03-01T09:00:00.000Z''),
              (''endTime'', JStr ''2025-03-01T10:00:00.000Z'')]"

definition plenaryPayload :: "string \<Rightarrow> obj" where
  "plenaryPayload sourceSystemId =
     [(''eventId'', JNum 46), (''roomId'', JStr ''room-1''),
      (''sourceSystemId'', JStr sourceSystemId), (''name'', JStr ''Opening''),
      (''description'', JNull),
      (''startsAt'', JStr ''2025-03-01T09:00:00.000Z''),
      (''endsAt'', JStr ''2025-03-01T10:00:00.000Z'')]"

text \<open>Sub-sessions of one session and their payloads: \<open>keynote\<close> and \<open>panel\<close> carry no order field, \<open>workshop\<close> carries \<open>order: 5\<close>, \<open>interlude\<close> has no identifier.\<close>

definition keynote :: obj where
  "keynote = [(''id'', JStr ''ss-7''), (''title'', JStr ''Keynote''),
              (''startTime'', JStr ''2025-03-01T09:00:00.000Z''),
              (''endTime'', JStr ''2025-03-01T10:00:00.000Z'')]"

definition keynotePayload :: obj where
  "keynotePayload =
     [(''sessionId'', JStr ''sess-1''), (''sourceSystemId'', JStr ''ss-7''),
      (''name'', JStr ''Keynote''), (''description'', JNull),
      (''startsAt'', JStr ''2025-03-01T09:00:00.000Z''),
      (''endsAt'', JStr ''2025-03-01T10:00:00.000Z''), (''order'', JNum 1)]"

definition panel :: obj where
  "panel = [(''id'', JStr ''ss-8''), (''title'', JStr ''Panel''),
            (''startTime'', JStr ''2025-03-01T10:00:00.000Z''),
            (''endTime'', JStr ''2025-03-01T11:00:00.000Z'')]"

definition panelPayload :: obj where
  "panelPayload =
     [(''sessionId'', JStr ''sess-1''), (''sourceSystemId'', JStr ''ss-8''),
      (''name'', JStr ''Panel''), (''description'', JNull),
      (''startsAt'', JStr ''2025-03-01T10:00:00.000Z''),
      (''endsAt'', JStr ''2025-03-01T11:00:00.000Z''), (''order'', JNum 1)]"

definition workshop :: obj where
  "workshop = [(''id'', JStr ''ss-9''), (''title'', JStr ''Workshop''), (''order'', JNum 5),
               (''startTime'', JStr ''2025-03-01T10:00:00.000Z''),
               (''endTime'', JStr ''2025-03-01T11:00:00.000Z'')]"

definition workshopPayload :: obj where
  "workshopPayload =
     [(''sessionId'', JStr ''sess-1''), (''sourceSystemId'', JStr ''ss-9''),
      (''name'', JStr ''Workshop''), (''description'', JNull),
      (''startsAt'', JStr ''2025-03-01T10:00:00.000Z''),
      (''endsAt'', JStr ''2025-03-01T11:00:00.000Z''), (''order'', JNum 5)]"

definition interlude :: obj where
  "interlude = [(''title'', JStr ''Interlude''),
                (''startTime'', JStr ''2025-03-01T09:00:00.000Z''),
                (''endTime'', JStr ''2025-03-01T10:00:00.000Z'')]"

definition interludePayload :: "string \<Rightarrow> obj" where
  "interludePayload sourceSystemId =
     [(''sessionId'', JStr ''sess-1''), (''sourceSystemId'', JStr sourceSystemId),
      (''name'', JStr ''Interlude''), (''description'', JNull),
      (''startsAt'', JStr ''2025-03-01T09:00:00.000Z''),
      (''endsAt'', JStr ''2025-03-01T10:00:00.000Z''), (''order'', JNum 1)]"

subsection \<open>The source event and the runs\<close>

text \<open>The client of the source event \<open>expo\<close>: the room \<open>hall\<close> with the given sessions, no users, no files.\<close>

definition expoLegacy :: "legacy_session list \<Rightarrow> legacy_client" where
  "expoLegacy sessions =
     \<lparr>legacyTestConnection = Inr (),
      legacyGetRooms = (\<lambda>eventName. Inr [hallRoom]),
      legacyGetRoom = (\<lambda>eventName name. Inr (Some hallRoom)),
      legacyGetSessions = (\<lambda>eventName name. Inr sessions),
      legacyGetUsers = (\<lambda>eventName name. Inr []),
      legacyGetFiles = (\<lambda>eventName name. Inr []),
      legacyDownloadFile = (\<lambda>url. Inr JNull)\<rparr>"

definition expoEnv :: "runtime \<Rightarrow> legacy_session list \<Rightarrow> unit target_system \<Rightarrow> unit env" where
  "expoEnv rt sessions ts =
     \<lparr>e_runtime = rt, e_legacy = expoLegacy sessions, e_target = ts, envCheck = None,
      dateNow = (\<lambda>k. k), taskDuration = (\<lambda>i. 0)\<rparr>"

definition expoConfig :: "bool \<Rightarrow> bool \<Rightarrow> configuration" where
  "expoConfig allRooms dry =
     \<lparr>c_legacyEventName = ''expo'', c_targetEventId = JNum 46, c_roomName = ''hall'',
      c_migrateAllRooms = allRooms, c_verbose = False, c_skipFiles = False, c_dryRun = dry\<rparr>"

text \<open>The statistics of a new ParallelProcessor, and a processing function that throws for room 2.\<close>

definition demoStats :: pp_statistics where
  "demoStats = \<lparr>totalTasks = 0, completedTasks = 0, failedTasks = 0, activeTasks = 0, maxActiveTasks = 0\<rparr>"

definition demoProcess :: "nat \<Rightarrow> unit \<Rightarrow> nat result \<times> unit" where
  "demoProcess room w = (if room = 2 then (Inl ''boom'', w) else (Inr (10 * room), w))"

section \<open>Properties of processRooms\<close>

lemma roomTask_fulfilled:
  "\<exists>out. fst (roomTask dur f cb i room sw) = Fulfilled out \<and> captured dur f cb i room (snd sw) out"
  by (auto simp: roomTask_def captured_def Let_def split: prod.splits sum.splits option.splits)

lemma limitedTasks_all:
  "limitedTasks dur f cb i rooms sw = (outs, sw') \<Longrightarrow>
   length outs = length rooms \<and>
   (\<forall>j<length rooms. \<exists>out w. outs ! j = Fulfilled out \<and> captured dur f cb (i + j) (rooms ! j) w out)"
proof (induction rooms arbitrary: i sw outs sw')
  case Nil
  then show ?case by simp
next
  case (Cons room rooms)
  obtain out sw1 where rt: "roomTask dur f cb i room sw = (out, sw1)" by (cases "roomTask dur f cb i room sw")
  obtain outs1 sw2 where lt: "limitedTasks dur f cb (Suc i) rooms sw1 = (outs1, sw2)"
    by (cases "limitedTasks dur f cb (Suc i) rooms sw1")
  from Cons.prems rt lt have outs: "outs = out # outs1" by simp
  from roomTask_fulfilled[of dur f cb i room sw] rt
  obtain o1 where o1: "out = Fulfilled o1" "captured dur f cb i room (snd sw) o1" by auto
  from Cons.IH[OF lt] have ih: "length outs1 = length rooms"
    "\<forall>j<length rooms. \<exists>out w. outs1 ! j = Fulfilled out \<and> captured dur f cb (Suc i + j) (rooms ! j) w out"
    by auto
  show ?case
  proof (intro conjI allI impI)
    show "length outs = length (room # rooms)" using outs ih by simp
  next
    fix j assume j: "j < length (room # rooms)"
    show "\<exists>out w. outs ! j = Fulfilled out \<and> captured dur f cb (i + j) ((room # rooms) ! j) w out"
    proof (cases j)
      case 0
      then show ?thesis using outs o1 by auto
    next
      case (Suc k)
      then have "k < length rooms" using j by simp
      with ih(2) obtain out' w' where "outs1 ! k = Fulfilled out'" "captured dur f cb (Suc i + k) (rooms ! k) w' out'"
        by blast
      then show ?thesis using Suc outs by auto
    qed
  qed
qed

lemma settleLoop_fulfilled:
  "\<forall>s \<in> set ss. \<exists>v. s = Fulfilled v \<Longrightarrow>
   settleLoop ss (acc, st) = (acc @ map (\<lambda>s. case s of Fulfilled v \<Rightarrow> v) ss, st)"
proof (induction ss arbitrary: acc)
  case Nil then show ?case by simp
next
  case (Cons s ss)
  then obtain v where "s = Fulfilled v" by auto
  with Cons show ?case by simp
qed

text \<open>
  Claim C9. For every list of rooms and every processing function, including one that
  throws, \<open>processRooms\<close> returns exactly one entry per room, in the order of the rooms; each
  entry is the captured outcome of the processing function on that room, a success value or
  an error value. The function has no throwing path of its own, so the exception of one
  room never reaches the caller.
\<close>

theorem processRooms_one_outcome_per_room:
  "length (fst (processRooms dur st0 rooms f cb w)) = length rooms \<and>
   (\<forall>i<length rooms. \<exists>wi.
      captured dur f cb i (rooms ! i) wi (fst (processRooms dur st0 rooms f cb w) ! i))"
proof -
  let ?st = "st0\<lparr>totalTasks := length rooms, completedTasks := 0, failedTasks := 0, activeTasks := 0\<rparr>"
  obtain outs st1 w1 where lt: "limitedTasks dur f cb 0 rooms (?st, w) = (outs, (st1, w1))"
    by (cases "limitedTasks dur f cb 0 rooms (?st, w)") auto
  from limitedTasks_all[OF lt] have len: "length outs = length rooms"
    and each: "\<forall>j<length rooms. \<exists>out wj. outs ! j = Fulfilled out \<and> captured dur f cb j (rooms ! j) wj out"
    by auto
  have allF: "\<forall>s \<in> set outs. \<exists>v. s = Fulfilled v"
  proof
    fix s assume "s \<in> set outs"
    then obtain j where "j < length outs" "outs ! j = s" by (auto simp: in_set_conv_nth)
    with each len show "\<exists>v. s = Fulfilled v" by auto
  qed
  have res: "fst (processRooms dur st0 rooms f cb w) = map (\<lambda>s. case s of Fulfilled v \<Rightarrow> v) outs"
    using lt settleLoop_fulfilled[OF allF, of "[]" st1] by (simp add: processRooms_def Let_def)
  show ?thesis
  proof (intro conjI allI impI)
    show "length (fst (processRooms dur st0 rooms f cb w)) = length rooms" using res len by simp
  next
    fix i assume i: "i < length rooms"
    with each obtain out wi where "outs ! i = Fulfilled out" "captured dur f cb i (rooms ! i) wi out" by blast
    then show "\<exists>wi. captured dur f cb i (rooms ! i) wi (fst (processRooms dur st0 rooms f cb w) ! i)"
      using res i len by auto
  qed
qed

text \<open>The batch of three rooms: the second entry holds the error, the third is processed.\<close>

theorem processRooms_one_outcome_per_room_witness:
  "(1::nat) < length [1, 2, 3 :: nat] \<and>
   length (fst (processRooms (\<lambda>i. 0) demoStats [1, 2, 3] demoProcess None ())) = 3 \<and>
   \<not> tr_success (fst (processRooms (\<lambda>i. 0) demoStats [1, 2, 3] demoProcess None ()) ! 1) \<and>
   tr_error (fst (processRooms (\<lambda>i. 0) demoStats [1, 2, 3] demoProcess None ()) ! 1) = Some ''boom'' \<and>
   tr_success (fst (processRooms (\<lambda>i. 0) demoStats [1, 2, 3] demoProcess None ()) ! 2)"
  using processRooms_one_outcome_per_room [of "\<lambda>i. 0" demoStats "[1, 2, 3]" demoProcess None "()"]
  by (simp add: processRooms_def roomTask_def demoProcess_def demoStats_def Let_def)

section \<open>Properties of the sub-session update\<close>

lemma calls_eventApiRequest:
  "endpointKey \<in> set eventApiEndpoints \<Longrightarrow>
   calls (snd (eventApiRequest ts method endpointKey dat params w)) =
     calls w @ [Request \<lparr>rq_api = ''event'', rq_method = method, rq_endpoint = endpointKey,
                    rq_params = params,
                    rq_data = (if truthy dat \<and> method \<in> {''POST'', ''PUT'', ''PATCH''}
                               then Some dat else None)\<rparr>]"
  by (simp add: eventApiRequest_def send_def Let_def split: prod.splits sum.splits)

lemma calls_updateSubSession:
  "calls (snd (updateSubSession ts subSessionId d eventId w)) =
     (if truthy (jor eventId (getProp d ''eventId''))
      then calls w @ [Request \<lparr>rq_api = ''event'', rq_method = ''PUT'', rq_endpoint = ''subSessionById'',
                        rq_params = [(''eventId'', jor eventId (getProp d ''eventId'')),
                                     (''subSessionId'', subSessionId)],
                        rq_data = Some (JObj (updatePayload d))\<rparr>]
      else calls w)"
proof -
  have k: "''subSessionById'' \<in> set eventApiEndpoints" by (simp add: eventApiEndpoints_def)
  show ?thesis
    using calls_eventApiRequest[OF k, of ts "''PUT''" "JObj (updatePayload d)"
        "[(''eventId'', jor eventId (getProp d ''eventId'')), (''subSessionId'', subSessionId)]" w]
    by (cases "eventApiRequest ts ''PUT'' ''subSessionById'' (JObj (updatePayload d))
        [(''eventId'', jor eventId (getProp d ''eventId'')), (''subSessionId'', subSessionId)] w")
       (auto simp: updateSubSession_def Let_def split: sum.splits)
qed

lemma getProp_filter_defined:
  "distinct (map fst xs) \<Longrightarrow> getProp (filter (\<lambda>kv. snd kv \<noteq> JUndefined) xs) k = getProp xs k"
proof (induction xs)
  case Nil
  then show ?case by simp
next
  case (Cons a xs)
  obtain k' v' where a: "a = (k', v')" by (cases a)
  from Cons.prems a have nk: "map_of xs k' = None" and dist: "distinct (map fst xs)"
    by (auto simp: map_of_eq_None_iff)
  from Cons.IH[OF dist] have ih: "getProp (filter (\<lambda>kv. snd kv \<noteq> JUndefined) xs) k = getProp xs k" .
  show ?case
  proof (cases "v' = JUndefined")
    case True
    then show ?thesis using ih nk a by (simp add: getProp_def)
  next
    case False
    then show ?thesis using ih a by (simp add: getProp_def)
  qed
qed

lemma getProp_updatePayload:
  "getProp (updatePayload d) k = (if k \<in> set updatableFields then getProp d k else JUndefined)"
proof -
  have "getProp (updatePayload d) k =
        getProp [(''name'', getProp d ''name''), (''description'', getProp d ''description''),
                 (''startsAt'', getProp d ''startsAt''), (''endsAt'', getProp d ''endsAt''),
                 (''order'', getProp d ''order'')] k"
    unfolding updatePayload_def by (rule getProp_filter_defined) simp
  also have "\<dots> = (if k \<in> set updatableFields then getProp d k else JUndefined)"
    by (simp add: getProp_def updatableFields_def)
  finally show ?thesis .
qed

lemma keys_updatePayload:
  "set (map fst (updatePayload d)) = {k \<in> set updatableFields. getProp d k \<noteq> JUndefined}"
  by (auto simp: updatePayload_def updatableFields_def)

lemma jor_neq_undefined: "b \<noteq> JUndefined \<Longrightarrow> jor a b \<noteq> JUndefined"
  by (cases a) (auto simp: jor_def)

lemma foldl_jor_neq_undefined: "b \<noteq> JUndefined \<Longrightarrow> foldl jor a (xs @ [b]) \<noteq> JUndefined"
  by (induction xs arbitrary: a) (auto simp: jor_neq_undefined)

lemma transformDateTime_defined: "transformDateTime rt v \<noteq> JUndefined"
  by (simp add: transformDateTime_def split: option.splits)

lemma transformed_fields:
  assumes "transformLegacySubSession rt now ls sid eid = Inr d"
  shows "getProp d ''name'' \<noteq> JUndefined" "getProp d ''description'' \<noteq> JUndefined"
    "getProp d ''startsAt'' \<noteq> JUndefined" "getProp d ''endsAt'' \<noteq> JUndefined"
    "getProp d ''order'' \<noteq> JUndefined"
proof -
  have n: "foldl jor (getProp ls ''subSessionName'') [getProp ls ''title'', JStr ''Untitled SubSession''] \<noteq> JUndefined"
    using foldl_jor_neq_undefined[of "JStr ''Untitled SubSession''" "getProp ls ''subSessionName''" "[getProp ls ''title'']"] by simp
  have o: "foldl jor (getProp ls ''order'') [getProp ls ''subSessionOrder'', JNum 1] \<noteq> JUndefined"
    using foldl_jor_neq_undefined[of "JNum 1" "getProp ls ''order''" "[getProp ls ''subSessionOrder'']"] by simp
  have d: "jor (getProp ls ''description'') JNull \<noteq> JUndefined" by (simp add: jor_neq_undefined)
  from assms have dd: "d = [(''sessionId'', sid),
             (''sourceSystemId'',
                foldl jor (getProp ls ''ClientSubSessionId'')
                  [getProp ls ''clientSubSessionId'',
                   getProp ls ''SubSessionId'',
                   getProp ls ''subSessionId'', getProp ls ''id'',
                   JStr (''legacy-'' @ natToString now)]),
             (''name'',
                foldl jor (getProp ls ''subSessionName'')
                  [getProp ls ''title'', JStr ''Untitled SubSession'']),
             (''description'', jor (getProp ls ''description'') JNull),
             (''startsAt'', transformDateTime rt (getProp ls ''startTime'')),
             (''endsAt'', transformDateTime rt (getProp ls ''endTime'')),
             (''order'',
                foldl jor (getProp ls ''order'')
                  [getProp ls ''subSessionOrder'', JNum 1])]"
    by (auto simp: transformLegacySubSession_def Let_def split: sum.splits)
  show "getProp d ''name'' \<noteq> JUndefined" using n by (simp add: dd getProp_def)
  show "getProp d ''description'' \<noteq> JUndefined" using d by (simp add: dd getProp_def)
  show "getProp d ''startsAt'' \<noteq> JUndefined" by (simp add: dd getProp_def transformDateTime_defined)
  show "getProp d ''endsAt'' \<noteq> JUndefined" by (simp add: dd getProp_def transformDateTime_defined)
  show "getProp d ''order'' \<noteq> JUndefined" using o by (simp add: dd getProp_def)
qed

lemma transformed_keys:
  assumes "transformLegacySubSession rt now ls sid eid = Inr d"
  shows "map fst (updatePayload d) = updatableFields"
  using transformed_fields[OF assms] by (simp add: updatePayload_def updatableFields_def)

lemma keynote_transformed:
  "transformLegacySubSession demoRuntime 0 keynote (JStr ''sess-1'') (JNum 46) = Inr keynotePayload"
  by (simp add: transformLegacySubSession_def demoRuntime_def keynote_def keynotePayload_def
      validateCurrentSystemData_def transformDateTime_def getProp_def jor_def Let_def)

text \<open>
  Claim C4. Every request \<open>updateSubSession\<close> sends is one PUT whose body is the update
  payload. As an object, the payload is the sub-session data restricted to \<open>name\<close>,
  \<open>description\<close>, \<open>startsAt\<close>, \<open>endsAt\<close> and \<open>order\<close>: its keys are those of the five that are
  defined in the data, each with the value the data has, so \<open>eventId\<close>, \<open>sessionId\<close> and
  \<open>sourceSystemId\<close> are never among them. For a transformed sub-session all five are
  defined, and the keys of the payload are exactly the five.
\<close>

theorem updateSubSession_payload_fields:
  "calls (snd (updateSubSession ts subSessionId d eventId w)) =
     (if truthy (jor eventId (getProp d ''eventId''))
      then calls w @ [Request \<lparr>rq_api = ''event'', rq_method = ''PUT'', rq_endpoint = ''subSessionById'',
                        rq_params = [(''eventId'', jor eventId (getProp d ''eventId'')),
                                     (''subSessionId'', subSessionId)],
                        rq_data = Some (JObj (updatePayload d))\<rparr>]
      else calls w) \<and>
   (\<forall>k. getProp (updatePayload d) k = (if k \<in> set updatableFields then getProp d k else JUndefined)) \<and>
   set (map fst (updatePayload d)) = {k \<in> set updatableFields. getProp d k \<noteq> JUndefined} \<and>
   ''eventId'' \<notin> set (map fst (updatePayload d)) \<and>
   ''sessionId'' \<notin> set (map fst (updatePayload d)) \<and>
   ''sourceSystemId'' \<notin> set (map fst (updatePayload d)) \<and>
   (\<forall>rt now ls sid eid. transformLegacySubSession rt now ls sid eid = Inr d
       \<longrightarrow> map fst (updatePayload d) = updatableFields)"
proof -
  have keys: "set (map fst (updatePayload d)) = {k \<in> set updatableFields. getProp d k \<noteq> JUndefined}"
    by (rule keys_updatePayload)
  have "''eventId'' \<notin> set updatableFields" "''sessionId'' \<notin> set updatableFields"
    "''sourceSystemId'' \<notin> set updatableFields"
    by (simp_all add: updatableFields_def)
  with keys have no: "''eventId'' \<notin> set (map fst (updatePayload d))"
    "''sessionId'' \<notin> set (map fst (updatePayload d))"
    "''sourceSystemId'' \<notin> set (map fst (updatePayload d))"
    by blast+
  show ?thesis
    using calls_updateSubSession[of ts subSessionId d eventId w] getProp_updatePayload[of d]
      keys no transformed_keys[of _ _ _ _ _ d]
    by blast
qed

text \<open>The update of the transformed keynote sub-session against event 46.\<close>

theorem updateSubSession_payload_fields_witness:
  "transformLegacySubSession demoRuntime 0 keynote (JStr ''sess-1'') (JNum 46) = Inr keynotePayload \<and>
   map fst (updatePayload keynotePayload) = [''name'', ''description'', ''startsAt'', ''endsAt'', ''order''] \<and>
   truthy (jor (JNum 46) (getProp keynotePayload ''eventId'')) \<and>
   calls (snd (updateSubSession acceptAll (JStr ''t-9'') keynotePayload (JNum 46) emptyWorld)) =
     [Request \<lparr>rq_api = ''event'', rq_method = ''PUT'', rq_endpoint = ''subSessionById'',
        rq_params = [(''eventId'', JNum 46), (''subSessionId'', JStr ''t-9'')],
        rq_data = Some (JObj [(''name'', JStr ''Keynote''), (''description'', JNull),
                              (''startsAt'', JStr ''2025-03-01T09:00:00.000Z''),
                              (''endsAt'', JStr ''2025-03-01T10:00:00.000Z''), (''order'', JNum 1)])\<rparr>]"
  using updateSubSession_payload_fields [of acceptAll "JStr ''t-9''" keynotePayload "JNum 46" emptyWorld]
    keynote_transformed
  by (simp add: updatableFields_def jor_def emptyWorld_def updatePayload_def keynotePayload_def getProp_def)

section \<open>The counters of sub-sessions and moderators\<close>

lemma sameChildCounters_refl: "sameChildCounters res res"
  by (simp add: sameChildCounters_def)

lemma sameChildCounters_trans:
  "sameChildCounters a b \<Longrightarrow> sameChildCounters b c \<Longrightarrow> sameChildCounters a c"
  by (simp add: sameChildCounters_def)

lemma addError_counters: "sameChildCounters res (addError context m res)"
  by (simp add: sameChildCounters_def addError_def Let_def)

lemma setRoomsProcessed_counters: "sameChildCounters res (setRoomsProcessed n res)"
  by (simp add: sameChildCounters_def setRoomsProcessed_def)

lemma aggregateRoomResults_counters:
  "sameChildCounters res (snd (aggregateRoomResults roomResults res))"
proof (induction roomResults arbitrary: res)
  case Nil
  then show ?case by (simp add: sameChildCounters_def)
next
  case (Cons roomResult roomResults)
  show ?case
    by (simp add: entryErrors_def sameChildCounters_def Let_def)
qed

lemma migrateAllRooms_counters:
  "sameChildCounters res (snd (fst (migrateAllRooms env pst cfg res w)))"
proof (cases "legacyGetRooms (e_legacy env) (c_legacyEventName cfg)")
  case (Inl m)
  then show ?thesis by (simp add: migrateAllRooms_def Let_def addError_counters)
next
  case (Inr rooms)
  show ?thesis
  proof (cases rooms)
    case Nil
    with Inr show ?thesis by (simp add: migrateAllRooms_def Let_def sameChildCounters_refl)
  next
    case (Cons room rest)
    show ?thesis
    proof (cases "c_dryRun cfg")
      case True
      with Inr Cons show ?thesis
        by (simp add: migrateAllRooms_def Let_def sameChildCounters_def setRoomsProcessed_def)
    next
      case False
      let ?pr = "processRooms (taskDuration env) pst (room # rest)
                   (\<lambda>r w'. case processRoom env cfg r w' of (rr, w2) \<Rightarrow> (Inr rr, w2))
                   (Some (\<lambda>current total. None)) w"
      obtain roomResults pst' w1 where pr: "?pr = (roomResults, (pst', w1))"
        by (cases ?pr) auto
      obtain r res1 where ag: "aggregateRoomResults roomResults res = (r, res1)"
        by (cases "aggregateRoomResults roomResults res")
      from aggregateRoomResults_counters[of res roomResults] ag
      have s1: "sameChildCounters res res1" by simp
      show ?thesis
      proof (cases r)
        case (Inl m)
        have "sameChildCounters res (addError ''All rooms migration'' m res1)"
          using s1 addError_counters sameChildCounters_trans by blast
        with Inr Cons False pr ag Inl show ?thesis
          by (simp add: migrateAllRooms_def Let_def)
      next
        case (Inr u)
        with \<open>legacyGetRooms (e_legacy env) (c_legacyEventName cfg) = Inr rooms\<close> Cons False pr ag s1
        show ?thesis by (simp add: migrateAllRooms_def Let_def)
      qed
    qed
  qed
qed

lemma migrateSingleRoom_counters:
  "sameChildCounters res (snd (fst (migrateSingleRoom env cfg res w)))"
proof (cases "legacyGetRoom (e_legacy env) (c_legacyEventName cfg) (c_roomName cfg)")
  case (Inl m)
  then show ?thesis by (simp add: migrateSingleRoom_def Let_def addError_counters)
next
  case (Inr found)
  show ?thesis
  proof (cases found)
    case None
    with Inr show ?thesis by (simp add: migrateSingleRoom_def Let_def addError_counters)
  next
    case (Some room)
    show ?thesis
    proof (cases "c_dryRun cfg")
      case True
      with Inr Some show ?thesis
        by (simp add: migrateSingleRoom_def Let_def sameChildCounters_def setRoomsProcessed_def)
    next
      case False
      obtain roomResult w1 where pr: "processRoom env cfg room w = (roomResult, w1)"
        by (cases "processRoom env cfg room w")
      with Inr Some False show ?thesis
        by (simp add: migrateSingleRoom_def Let_def sameChildCounters_def setRoomsProcessed_def)
    qed
  qed
qed

text \<open>
  Claim C10. In the result of every run of \<open>executeMigration\<close>, whatever the source, the
  target and the configuration, the counters \<open>subSessionsCreated\<close> and \<open>moderatorsCreated\<close>
  hold the 0 they were initialised with: no path of the orchestration writes them.
\<close>

theorem executeMigration_child_counters_zero:
  "subSessionsCreated (mr_statistics (fst (executeMigration env pst cfg w))) = Num 0 \<and>
   moderatorsCreated (mr_statistics (fst (executeMigration env pst cfg w))) = Num 0"
proof -
  have init: "subSessionsCreated (mr_statistics newMigrationResult) = Num 0"
    "moderatorsCreated (mr_statistics newMigrationResult) = Num 0"
    by (simp_all add: newMigrationResult_def)
  have "sameChildCounters newMigrationResult (fst (executeMigration env pst cfg w))"
  proof (cases "validateEnvironment env w")
    case (Pair v w1)
    show ?thesis
    proof (cases v)
      case (Inl m)
      with Pair show ?thesis
        by (simp add: executeMigration_def Let_def sameChildCounters_def addError_def)
    next
      case (Inr u)
      let ?run = "if c_migrateAllRooms cfg then migrateAllRooms env pst cfg newMigrationResult w1
                  else migrateSingleRoom env cfg newMigrationResult w1"
      have run: "sameChildCounters newMigrationResult (snd (fst ?run))"
        by (simp add: migrateAllRooms_counters migrateSingleRoom_counters)
      obtain r res1 w2 where rr: "?run = ((r, res1), w2)" by (cases ?run) auto
      with run have s1: "sameChildCounters newMigrationResult res1" by simp
      show ?thesis
        using Pair Inr rr s1
        by (cases r) (auto simp: executeMigration_def Let_def sameChildCounters_def addError_def)
    qed
  qed
  with init show ?thesis by (simp add: sameChildCounters_def)
qed

section \<open>Properties of the transformation\<close>

lemma foldl_jor_last:
  "truthy (foldl jor a xs) \<Longrightarrow> foldl jor a (xs @ [b]) = foldl jor a xs"
  by (simp add: jor_def)

lemma foldl_jor_truthy_iff:
  "truthy (foldl jor a xs) \<longleftrightarrow> truthy a \<or> (\<exists>x \<in> set xs. truthy x)"
  by (induction xs arbitrary: a) (auto simp: jor_def)

lemma transformLegacySubSession_order:
  "transformLegacySubSession rt now ls sid eid = Inr d \<Longrightarrow>
   getProp d ''order'' =
     (if truthy (getProp ls ''order'') then getProp ls ''order''
      else if truthy (getProp ls ''subSessionOrder'') then getProp ls ''subSessionOrder''
      else JNum 1)"
  by (auto simp: transformLegacySubSession_def Let_def getProp_def jor_def split: sum.splits)

lemma panel_transformed:
  "transformLegacySubSession demoRuntime 0 panel (JStr ''sess-1'') (JNum 46) = Inr panelPayload"
  by (simp add: transformLegacySubSession_def demoRuntime_def panel_def panelPayload_def
      validateCurrentSystemData_def transformDateTime_def getProp_def jor_def Let_def)

lemma workshop_transformed:
  "transformLegacySubSession demoRuntime 0 workshop (JStr ''sess-1'') (JNum 46) = Inr workshopPayload"
  by (simp add: transformLegacySubSession_def demoRuntime_def workshop_def workshopPayload_def
      validateCurrentSystemData_def transformDateTime_def getProp_def jor_def Let_def)

text \<open>
  Claim C3 as stated fails: of the two sub-sessions \<open>[keynote, panel]\<close> the second is
  transformed with \<open>order\<close> 1, not 2; and \<open>workshop\<close>, first of its list, is transformed with
  the \<open>order\<close> 5 of its source record.
\<close>

theorem subSession_order_counterexample:
  "transformLegacySubSession demoRuntime 0 ([keynote, panel] ! 1) (JStr ''sess-1'') (JNum 46)
     = Inr panelPayload \<and>
   getProp panelPayload ''order'' = JNum 1 \<and>
   getProp panelPayload ''order'' \<noteq> JNum 2 \<and>
   transformLegacySubSession demoRuntime 0 ([workshop] ! 0) (JStr ''sess-1'') (JNum 46)
     = Inr workshopPayload \<and>
   getProp workshopPayload ''order'' = JNum 5 \<and>
   getProp workshopPayload ''order'' \<noteq> JNum 1"
  using panel_transformed workshop_transformed
  by (simp add: panelPayload_def workshopPayload_def getProp_def)

text \<open>
  Claim C3, amended. The \<open>order\<close> of a transformed sub-session is taken from the source
  record: its \<open>order\<close> when that is truthy, else its \<open>subSessionOrder\<close> when that is truthy,
  else 1. The position in the source list plays no part.
\<close>

theorem subSession_order_from_source:
  "transformLegacySubSession rt now ls sid eid = Inr d \<Longrightarrow>
   getProp d ''order'' =
     (if truthy (getProp ls ''order'') then getProp ls ''order''
      else if truthy (getProp ls ''subSessionOrder'') then getProp ls ''subSessionOrder''
      else JNum 1)"
  by (rule transformLegacySubSession_order)

theorem subSession_order_from_source_witness:
  "transformLegacySubSession demoRuntime 0 workshop (JStr ''sess-1'') (JNum 46) = Inr workshopPayload \<and>
   truthy (getProp workshop ''order'') \<and>
   getProp workshopPayload ''order'' = getProp workshop ''order'' \<and>
   getProp workshopPayload ''order'' = JNum 5"
  using subSession_order_from_source [OF workshop_transformed] workshop_transformed
  by (simp add: workshop_def getProp_def)

lemma idFields_truthy:
  assumes "\<exists>k \<in> set (k0 # ks). truthy (getProp ls k)"
  shows "foldl jor (getProp ls k0) (map (getProp ls) ks @ [b]) = foldl jor (getProp ls k0) (map (getProp ls) ks)"
proof -
  from assms have "truthy (foldl jor (getProp ls k0) (map (getProp ls) ks))"
    by (auto simp: foldl_jor_truthy_iff)
  then show ?thesis by (rule foldl_jor_last)
qed

lemma idFields_falsy:
  assumes "\<not> (\<exists>k \<in> set (k0 # ks). truthy (getProp ls k))"
  shows "foldl jor (getProp ls k0) (map (getProp ls) ks @ [b]) = b"
proof -
  from assms have "\<not> truthy (foldl jor (getProp ls k0) (map (getProp ls) ks))"
    by (auto simp: foldl_jor_truthy_iff)
  then show ?thesis by (simp add: jor_def)
qed

lemma transformLegacySession_clock:
  assumes "identified sessionIdFields ls"
  shows "transformLegacySession rt now ls roomId eid = transformLegacySession rt now' ls roomId eid"
proof -
  have "\<And>b. foldl jor (getProp ls ''ClientSessionId'')
          [getProp ls ''clientSessionId'', getProp ls ''SessionId'', getProp ls ''sessionId'',
           getProp ls ''id'', b]
        = foldl jor (getProp ls ''ClientSessionId'')
          [getProp ls ''clientSessionId'', getProp ls ''SessionId'', getProp ls ''sessionId'',
           getProp ls ''id'']"
    using idFields_truthy[of "''ClientSessionId''"
        "[''clientSessionId'', ''SessionId'', ''sessionId'', ''id'']" ls] assms
    by (simp add: sessionIdFields_def identified_def)
  then show ?thesis
    unfolding transformLegacySession_def by presburger
qed

lemma transformLegacySubSession_clock:
  assumes "identified subSessionIdFields ls"
  shows "transformLegacySubSession rt now ls sid eid = transformLegacySubSession rt now' ls sid eid"
proof -
  have "\<And>b. foldl jor (getProp ls ''ClientSubSessionId'')
          [getProp ls ''clientSubSessionId'', getProp ls ''SubSessionId'', getProp ls ''subSessionId'',
           getProp ls ''id'', b]
        = foldl jor (getProp ls ''ClientSubSessionId'')
          [getProp ls ''clientSubSessionId'', getProp ls ''SubSessionId'', getProp ls ''subSessionId'',
           getProp ls ''id'']"
    using idFields_truthy[of "''ClientSubSessionId''"
        "[''clientSubSessionId'', ''SubSessionId'', ''subSessionId'', ''id'']" ls] assms
    by (simp add: subSessionIdFields_def identified_def)
  then show ?thesis
    unfolding transformLegacySubSession_def by presburger
qed

lemma plenary_transformed:
  "transformLegacySession demoRuntime now plenary (JStr ''room-1'') (JNum 46)
     = Inr (plenaryPayload (''legacy-'' @ natToString now))"
  by (simp add: transformLegacySession_def demoRuntime_def plenary_def plenaryPayload_def
      validateCurrentSystemData_def transformDateTime_def getProp_def jor_def Let_def)

text \<open>
  Claim C7 as stated fails: the session \<open>plenary\<close> has none of the identifier fields, and two
  transformations of it, made when the clock reads 1 and when it reads 2, give payloads with
  the different identifiers \<open>legacy-1\<close> and \<open>legacy-2\<close>.
\<close>

theorem transform_deterministic_counterexample:
  "transformLegacySession demoRuntime 1 plenary (JStr ''room-1'') (JNum 46)
     = Inr (plenaryPayload ''legacy-1'') \<and>
   transformLegacySession demoRuntime 2 plenary (JStr ''room-1'') (JNum 46)
     = Inr (plenaryPayload ''legacy-2'') \<and>
   getProp (plenaryPayload ''legacy-1'') ''sourceSystemId'' = JStr ''legacy-1'' \<and>
   getProp (plenaryPayload ''legacy-2'') ''sourceSystemId'' = JStr ''legacy-2'' \<and>
   plenaryPayload ''legacy-1'' \<noteq> plenaryPayload ''legacy-2''"
  using plenary_transformed[of 1] plenary_transformed[of 2]
  by (simp add: natToString_def decimalDigits.simps digit_char_def plenaryPayload_def getProp_def)

lemma transformLegacySession_unidentified:
  assumes "\<not> identified sessionIdFields ls"
    and "transformLegacySession rt now ls roomId eid = Inr d"
  shows "getProp d ''sourceSystemId'' = JStr (''legacy-'' @ natToString now)"
proof -
  have "foldl jor (getProp ls ''ClientSessionId'')
          [getProp ls ''clientSessionId'', getProp ls ''SessionId'', getProp ls ''sessionId'',
           getProp ls ''id'', JStr (''legacy-'' @ natToString now)]
        = JStr (''legacy-'' @ natToString now)"
    using idFields_falsy[of "''ClientSessionId''"
        "[''clientSessionId'', ''SessionId'', ''sessionId'', ''id'']" ls] assms(1)
    by (simp add: sessionIdFields_def identified_def)
  with assms(2) show ?thesis
    by (auto simp: transformLegacySession_def Let_def getProp_def split: sum.splits)
qed

lemma transformLegacySubSession_unidentified:
  assumes "\<not> identified subSessionIdFields ls"
    and "transformLegacySubSession rt now ls sid eid = Inr d"
  shows "getProp d ''sourceSystemId'' = JStr (''legacy-'' @ natToString now)"
proof -
  have "foldl jor (getProp ls ''ClientSubSessionId'')
          [getProp ls ''clientSubSessionId'', getProp ls ''SubSessionId'', getProp ls ''subSessionId'',
           getProp ls ''id'', JStr (''legacy-'' @ natToString now)]
        = JStr (''legacy-'' @ natToString now)"
    using idFields_falsy[of "''ClientSubSessionId''"
        "[''clientSubSessionId'', ''SubSessionId'', ''subSessionId'', ''id'']" ls] assms(1)
    by (simp add: subSessionIdFields_def identified_def)
  with assms(2) show ?thesis
    by (auto simp: transformLegacySubSession_def Let_def getProp_def split: sum.splits)
qed

lemma interlude_transformed:
  "transformLegacySubSession demoRuntime now interlude (JStr ''sess-1'') (JNum 46)
     = Inr (interludePayload (''legacy-'' @ natToString now))"
  by (simp add: transformLegacySubSession_def demoRuntime_def interlude_def interludePayload_def
      validateCurrentSystemData_def transformDateTime_def getProp_def jor_def Let_def)

text \<open>
  Claim C7, amended. The transformation of a session or sub-session is a function of the
  source record, the parent identifiers, the DTO configuration and the reading of the clock.
  For a record with a truthy identifier field the clock plays no part: two invocations give
  the same payload, with the same \<open>sourceSystemId\<close>. For a record without one, the
  \<open>sourceSystemId\<close> of the payload is \<open>legacy-\<close> followed by the reading of the clock at the
  call.
\<close>

theorem transform_deterministic_when_identified:
  "(identified sessionIdFields ls \<longrightarrow>
      transformLegacySession rt now ls roomId eid = transformLegacySession rt now' ls roomId eid) \<and>
   (identified subSessionIdFields ls \<longrightarrow>
      transformLegacySubSession rt now ls sid eid = transformLegacySubSession rt now' ls sid eid) \<and>
   (\<not> identified sessionIdFields ls \<longrightarrow> transformLegacySession rt now ls roomId eid = Inr d \<longrightarrow>
      getProp d ''sourceSystemId'' = JStr (''legacy-'' @ natToString now)) \<and>
   (\<not> identified subSessionIdFields ls \<longrightarrow> transformLegacySubSession rt now ls sid eid = Inr d' \<longrightarrow>
      getProp d' ''sourceSystemId'' = JStr (''legacy-'' @ natToString now))"
proof (intro conjI impI)
  assume "identified sessionIdFields ls"
  then show "transformLegacySession rt now ls roomId eid = transformLegacySession rt now' ls roomId eid"
    by (rule transformLegacySession_clock)
next
  assume "identified subSessionIdFields ls"
  then show "transformLegacySubSession rt now ls sid eid = transformLegacySubSession rt now' ls sid eid"
    by (rule transformLegacySubSession_clock)
next
  assume "\<not> identified sessionIdFields ls" "transformLegacySession rt now ls roomId eid = Inr d"
  then show "getProp d ''sourceSystemId'' = JStr (''legacy-'' @ natToString now)"
    by (rule transformLegacySession_unidentified)
next
  assume "\<not> identified subSessionIdFields ls" "transformLegacySubSession rt now ls sid eid = Inr d'"
  then show "getProp d' ''sourceSystemId'' = JStr (''legacy-'' @ natToString now)"
    by (rule transformLegacySubSession_unidentified)
qed

theorem transform_deterministic_when_identified_witness:
  "identified sessionIdFields talk \<and>
   transformLegacySession demoRuntime 1 talk (JStr ''room-1'') (JNum 46)
     = transformLegacySession demoRuntime 2 talk (JStr ''room-1'') (JNum 46) \<and>
   identified subSessionIdFields keynote \<and>
   transformLegacySubSession demoRuntime 1 keynote (JStr ''sess-1'') (JNum 46)
     = transformLegacySubSession demoRuntime 2 keynote (JStr ''sess-1'') (JNum 46) \<and>
   \<not> identified sessionIdFields plenary \<and>
   transformLegacySession demoRuntime 1 plenary (JStr ''room-1'') (JNum 46)
     = Inr (plenaryPayload ''legacy-1'') \<and>
   getProp (plenaryPayload ''legacy-1'') ''sourceSystemId'' = JStr ''legacy-1'' \<and>
   \<not> identified subSessionIdFields interlude \<and>
   transformLegacySubSession demoRuntime 1 interlude (JStr ''sess-1'') (JNum 46)
     = Inr (interludePayload ''legacy-1'') \<and>
   getProp (interludePayload ''legacy-1'') ''sourceSystemId'' = JStr ''legacy-1''"
proof -
  have a: "identified sessionIdFields talk"
    by (simp add: identified_def sessionIdFields_def talk_def getProp_def)
  have b: "identified subSessionIdFields keynote"
    by (simp add: identified_def subSessionIdFields_def keynote_def getProp_def)
  have c: "\<not> identified sessionIdFields plenary"
    by (simp add: identified_def sessionIdFields_def plenary_def getProp_def)
  have d: "\<not> identified subSessionIdFields interlude"
    by (simp add: identified_def subSessionIdFields_def interlude_def getProp_def)
  have one: "''legacy-'' @ natToString 1 = ''legacy-1''"
    by (simp add: natToString_def decimalDigits.simps digit_char_def)
  have p: "transformLegacySession demoRuntime 1 plenary (JStr ''room-1'') (JNum 46)
             = Inr (plenaryPayload ''legacy-1'')"
    using plenary_transformed[of 1] one by simp
  have i: "transformLegacySubSession demoRuntime 1 interlude (JStr ''sess-1'') (JNum 46)
             = Inr (interludePayload ''legacy-1'')"
    using interlude_transformed[of 1] one by simp
  show ?thesis
    using a b c d p i one
      transform_deterministic_when_identified
        [where ls = talk and rt = demoRuntime and now = 1 and now' = 2
           and roomId = "JStr ''room-1''" and eid = "JNum 46"]
      transform_deterministic_when_identified
        [where ls = keynote and rt = demoRuntime and now = 1 and now' = 2
           and sid = "JStr ''sess-1''" and eid = "JNum 46"]
      transform_deterministic_when_identified
        [where ls = plenary and rt = demoRuntime and now = 1
           and roomId = "JStr ''room-1''" and eid = "JNum 46" and d = "plenaryPayload ''legacy-1''"]
      transform_deterministic_when_identified
        [where ls = interlude and rt = demoRuntime and now = 1
           and sid = "JStr ''sess-1''" and eid = "JNum 46" and d' = "interludePayload ''legacy-1''"]
    by simp
qed

section \<open>The calls made by the client\<close>

lemma posts_append [simp]: "posts (cs @ ds) = posts cs + posts ds"
  by (simp add: posts_def)

lemma eventApiRequest_calls:
  assumes "endpointKey \<in> set eventApiEndpoints"
    and "eventApiRequest ts method endpointKey dat params w = (r, w')"
  shows "calls w' = calls w @ [Request \<lparr>rq_api = ''event'', rq_method = method,
                    rq_endpoint = endpointKey, rq_params = params,
                    rq_data = (if truthy dat \<and> method \<in> {''POST'', ''PUT'', ''PATCH''}
                               then Some dat else None)\<rparr>]"
  using calls_eventApiRequest[OF assms(1), of ts "method" dat params w] assms(2) by simp

lemma getList_calls:
  assumes "endpointKey \<in> set eventApiEndpoints"
    and "getList ts endpointKey what eventId w = (r, w')"
  shows "\<exists>req. calls w' = calls w @ [Request req] \<and> rq_method req = ''GET''"
proof -
  obtain r0 w0 where e: "eventApiRequest ts ''GET'' endpointKey JNull [(''eventId'', eventId)] w = (r0, w0)"
    by (cases "eventApiRequest ts ''GET'' endpointKey JNull [(''eventId'', eventId)] w")
  from assms(2) e have "w' = w0" by (auto simp: getList_def split: sum.splits)
  with eventApiRequest_calls[OF assms(1) e] show ?thesis by simp
qed

lemma postEntity_calls:
  assumes "endpointKey \<in> set eventApiEndpoints"
    and "postEntity ts endpointKey dat eventId w = (r, w')"
  shows "\<exists>req. calls w' = calls w @ [Request req] \<and> rq_method req = ''POST'' \<and> rq_data req = Some (JObj dat)"
proof -
  obtain r0 w0 where e: "eventApiRequest ts ''POST'' endpointKey (JObj dat) [(''eventId'', eventId)] w = (r0, w0)"
    by (cases "eventApiRequest ts ''POST'' endpointKey (JObj dat) [(''eventId'', eventId)] w")
  from assms(2) e have "w' = w0" by (auto simp: postEntity_def split: sum.splits if_splits)
  with eventApiRequest_calls[OF assms(1) e] show ?thesis by simp
qed

lemma posts_get: "rq_method req = ''GET'' \<Longrightarrow> posts [Request req] = 0"
  by (simp add: posts_def isPost_def)

lemma posts_post: "rq_method req = ''POST'' \<Longrightarrow> posts [Request req] = 1"
  by (simp add: posts_def isPost_def)

lemma getRooms_posts:
  "getRooms ts eventId w = (r, w') \<Longrightarrow> posts (calls w') = posts (calls w)"
  using getList_calls[of "''rooms''" ts "''rooms''" eventId w r w']
  by (auto simp: getRooms_def eventApiEndpoints_def posts_get)

lemma findBySourceSystemId_posts:
  assumes "\<And>e w r w'. fetch e w = (r, w') \<Longrightarrow> posts (calls w') = posts (calls w)"
    and "findBySourceSystemId fetch eventId sourceSystemId w = (found, w')"
  shows "posts (calls w') = posts (calls w)"
proof -
  obtain r0 w0 where f: "fetch eventId w = (r0, w0)" by (cases "fetch eventId w")
  from assms(2) f have "w' = w0"
    by (auto simp: findBySourceSystemId_def split: sum.splits)
  with assms(1)[OF f] show ?thesis by simp
qed


lemma getSubSessions_posts:
  "getSubSessions ts eventId w = (r, w') \<Longrightarrow> posts (calls w') = posts (calls w)"
  using getList_calls[of "''subSessions''" ts "''subsessions''" eventId w r w']
  by (auto simp: getSubSessions_def eventApiEndpoints_def posts_get)


lemma getSubSessionBySourceSystemId_posts:
  "getSubSessionBySourceSystemId ts eventId sourceSystemId w = (found, w') \<Longrightarrow>
   posts (calls w') = posts (calls w)"
  unfolding getSubSessionBySourceSystemId_def
  by (rule findBySourceSystemId_posts[of "getSubSessions ts"]) (auto dest: getSubSessions_posts)

lemma postEntity_posts:
  assumes "endpointKey \<in> set eventApiEndpoints"
    and "postEntity ts endpointKey dat eventId w = (r, w')"
  shows "posts (calls w') = posts (calls w) + 1"
  using postEntity_calls[OF assms] by (auto simp: posts_post)

section \<open>Conflicts that cannot be resolved\<close>

lemma createRoom_unresolved:
  assumes "postEntity ts ''rooms'' roomData (getProp roomData ''eventId'') w = (Inl m, w1)"
    and "str_includes m ''409''" and "str_includes m ''already exists''"
    and "getRooms ts (getProp roomData ''eventId'') w1 = (Inr existingRooms, w2)"
    and "arrayFind ''name'' (getProp roomData ''name'') existingRooms = Inr JUndefined"
  shows "createRoom ts roomData w = (mockRoom ts roomData, w2)"
    and "posts (calls w2) = posts (calls w) + 1"
proof -
  show "createRoom ts roomData w = (mockRoom ts roomData, w2)"
    using assms by (simp add: createRoom_def createRoomCatch_def)
  have "posts (calls w1) = posts (calls w) + 1"
    using postEntity_posts[OF _ assms(1)] by (simp add: eventApiEndpoints_def)
  with getRooms_posts[OF assms(4)] show "posts (calls w2) = posts (calls w) + 1" by simp
qed

lemma lookupAndUpdate_nothing:
  assumes "lookup eventId sourceSystemId w = (found, w')" and "\<not> truthy found"
  shows "lookupAndUpdate lookup update eventId sourceSystemId w = (None, w')"
  using assms by (simp add: lookupAndUpdate_def)

lemma createOrUpdateSubSession_unresolved:
  assumes "truthy (jor eventId (getProp d ''eventId''))"
    and "getSubSessionBySourceSystemId ts (jor eventId (getProp d ''eventId''))
           (getProp d ''sourceSystemId'') w = (found0, w1)"
    and "\<not> truthy found0"
    and "postEntity ts ''subSessions'' d (jor eventId (getProp d ''eventId'')) w1 = (Inl m, w2)"
    and "str_includes m ''409''" and "str_includes m ''already in use''"
    and "getSubSessionBySourceSystemId ts (jor eventId (getProp d ''eventId''))
           (getProp d ''sourceSystemId'') w2 = (found1, w3)"
    and "\<not> truthy found1"
  shows "createOrUpdateSubSession ts d eventId w = (Inr (mockSubSession d), w3)"
    and "posts (calls w3) = posts (calls w) + 1"
proof -
  let ?upd = "\<lambda>existingId. updateSubSession ts existingId d (jor eventId (getProp d ''eventId''))"
  have l0: "lookupAndUpdate (getSubSessionBySourceSystemId ts) ?upd (jor eventId (getProp d ''eventId''))
              (getProp d ''sourceSystemId'') w = (None, w1)"
    using assms(2,3) by (rule lookupAndUpdate_nothing)
  have l1: "lookupAndUpdate (getSubSessionBySourceSystemId ts) ?upd (jor eventId (getProp d ''eventId''))
              (getProp d ''sourceSystemId'') w2 = (None, w3)"
    using assms(7,8) by (rule lookupAndUpdate_nothing)
  show "createOrUpdateSubSession ts d eventId w = (Inr (mockSubSession d), w3)"
    using assms(1,4,5,6) l0 l1 by (simp add: createOrUpdateSubSession_def Let_def)
  have "posts (calls w1) = posts (calls w)"
    using getSubSessionBySourceSystemId_posts[OF assms(2)] .
  moreover have "posts (calls w2) = posts (calls w1) + 1"
    using postEntity_posts[OF _ assms(4)] by (simp add: eventApiEndpoints_def)
  moreover have "posts (calls w3) = posts (calls w2)"
    using getSubSessionBySourceSystemId_posts[OF assms(7)] .
  ultimately show "posts (calls w3) = posts (calls w) + 1" by simp
qed

text \<open>
  Claim C2, amended. When the creation of a room is answered with a conflict (a 409 error
  whose message contains \<open>already exists\<close>) and the lookup finds no room of that name,
  \<open>createRoom\<close> returns the placeholder object \<open>mockRoom\<close>, whose \<open>id\<close> is \<open>existing-\<close> followed
  by the slug of the name, and reports no error. When the creation of a sub-session is
  answered with a conflict (409, \<open>already in use\<close>) and neither lookup finds a sub-session
  with its \<open>sourceSystemId\<close>, \<open>createOrUpdateSubSession\<close> returns the placeholder
  \<open>mockSubSession\<close> with \<open>id\<close> \<open>existing-\<close> followed by the \<open>sourceSystemId\<close>. In both cases
  exactly one POST has been sent: creation is not attempted again.
\<close>

theorem conflict_unresolved_returns_placeholder:
  "(postEntity ts ''rooms'' roomData (getProp roomData ''eventId'') w = (Inl m, wa) \<longrightarrow>
    str_includes m ''409'' \<longrightarrow> str_includes m ''already exists'' \<longrightarrow>
    getRooms ts (getProp roomData ''eventId'') wa = (Inr existingRooms, wb) \<longrightarrow>
    arrayFind ''name'' (getProp roomData ''name'') existingRooms = Inr JUndefined \<longrightarrow>
      createRoom ts roomData w = (mockRoom ts roomData, wb) \<and>
      posts (calls wb) = posts (calls w) + 1) \<and>
   (truthy (jor eventId (getProp d ''eventId'')) \<longrightarrow>
    getSubSessionBySourceSystemId ts (jor eventId (getProp d ''eventId''))
      (getProp d ''sourceSystemId'') v = (foundA, va) \<longrightarrow>
    \<not> truthy foundA \<longrightarrow>
    postEntity ts ''subSessions'' d (jor eventId (getProp d ''eventId'')) va = (Inl n, vb) \<longrightarrow>
    str_includes n ''409'' \<longrightarrow> str_includes n ''already in use'' \<longrightarrow>
    getSubSessionBySourceSystemId ts (jor eventId (getProp d ''eventId''))
      (getProp d ''sourceSystemId'') vb = (foundB, vc) \<longrightarrow>
    \<not> truthy foundB \<longrightarrow>
      createOrUpdateSubSession ts d eventId v = (Inr (mockSubSession d), vc) \<and>
      posts (calls vc) = posts (calls v) + 1)"
  using createRoom_unresolved createOrUpdateSubSession_unresolved
  by (intro conjI impI) blast+

text \<open>
  The room \<open>hall\<close> and the keynote sub-session against a target that rejects every POST
  with a conflict and has no rooms and no sub-sessions.
\<close>

theorem conflict_unresolved_returns_placeholder_witness:
  "fst (postEntity (conflictTarget ''Room already exists'' (JArr [])) ''rooms'' hallData
          (getProp hallData ''eventId'') emptyWorld)
     = Inl ''Current event API Error (409): Room already exists'' \<and>
   str_includes ''Current event API Error (409): Room already exists'' ''409'' \<and>
   str_includes ''Current event API Error (409): Room already exists'' ''already exists'' \<and>
   arrayFind ''name'' (getProp hallData ''name'') (JArr []) = Inr JUndefined \<and>
   fst (createRoom (conflictTarget ''Room already exists'' (JArr [])) hallData emptyWorld)
     = Inr (JObj [(''id'', JStr ''existing-hall''), (''name'', JStr ''hall''),
                  (''displayName'', JStr ''hall''), (''eventLocationId'', JNum 500),
                  (''_isExisting'', JBool True)]) \<and>
   posts (calls (snd (createRoom (conflictTarget ''Room already exists'' (JArr [])) hallData
                        emptyWorld))) = 1 \<and>
   truthy (jor (JNum 46) (getProp keynotePayload ''eventId'')) \<and>
   fst (createOrUpdateSubSession (conflictTarget ''SourceSystemId already in use'' (JArr []))
          keynotePayload (JNum 46) emptyWorld)
     = Inr (JObj [(''id'', JStr ''existing-ss-7''), (''name'', JStr ''Keynote''),
                  (''sourceSystemId'', JStr ''ss-7''), (''sessionId'', JStr ''sess-1''),
                  (''_isExisting'', JBool True)]) \<and>
   posts (calls (snd (createOrUpdateSubSession
                        (conflictTarget ''SourceSystemId already in use'' (JArr []))
                        keynotePayload (JNum 46) emptyWorld))) = 1"
proof -
  let ?rt = "conflictTarget ''Room already exists'' (JArr [])"
  let ?st = "conflictTarget ''SourceSystemId already in use'' (JArr [])"
  let ?m = "''Current event API Error (409): Room already exists''"
  let ?n = "''Current event API Error (409): SourceSystemId already in use''"
  let ?w1 = "snd (postEntity ?rt ''rooms'' hallData (getProp hallData ''eventId'') emptyWorld)"
  let ?w2 = "snd (getRooms ?rt (getProp hallData ''eventId'') ?w1)"
  let ?e = "jor (JNum 46) (getProp keynotePayload ''eventId'')"
  let ?v1 = "snd (getSubSessionBySourceSystemId ?st ?e (getProp keynotePayload ''sourceSystemId'') emptyWorld)"
  let ?v2 = "snd (postEntity ?st ''subSessions'' keynotePayload ?e ?v1)"
  let ?v3 = "snd (getSubSessionBySourceSystemId ?st ?e (getProp keynotePayload ''sourceSystemId'') ?v2)"
  have r1: "fst (postEntity ?rt ''rooms'' hallData (getProp hallData ''eventId'') emptyWorld) = Inl ?m"
    by code_simp
  have r2: "str_includes ?m ''409''" "str_includes ?m ''already exists''"
    by code_simp+
  have r3: "fst (getRooms ?rt (getProp hallData ''eventId'') ?w1) = Inr (JArr [])"
    by code_simp
  have r4: "arrayFind ''name'' (getProp hallData ''name'') (JArr []) = Inr JUndefined"
    by code_simp
  have r5: "mockRoom ?rt hallData
              = Inr (JObj [(''id'', JStr ''existing-hall''), (''name'', JStr ''hall''),
                           (''displayName'', JStr ''hall''), (''eventLocationId'', JNum 500),
                           (''_isExisting'', JBool True)])"
    by code_simp
  have r6: "posts (calls emptyWorld) = 0"
    by code_simp
  have s0: "truthy ?e" by code_simp
  have s1: "fst (getSubSessionBySourceSystemId ?st ?e (getProp keynotePayload ''sourceSystemId'') emptyWorld)
              = JUndefined"
    by code_simp
  have s2: "fst (postEntity ?st ''subSessions'' keynotePayload ?e ?v1) = Inl ?n"
    by code_simp
  have s3: "str_includes ?n ''409''" "str_includes ?n ''already in use''"
    by code_simp+
  have s4: "fst (getSubSessionBySourceSystemId ?st ?e (getProp keynotePayload ''sourceSystemId'') ?v2)
              = JUndefined"
    by code_simp
  have s5: "mockSubSession keynotePayload
              = JObj [(''id'', JStr ''existing-ss-7''), (''name'', JStr ''Keynote''),
                      (''sourceSystemId'', JStr ''ss-7''), (''sessionId'', JStr ''sess-1''),
                      (''_isExisting'', JBool True)]"
    by code_simp
  have room: "createRoom ?rt hallData emptyWorld = (mockRoom ?rt hallData, ?w2) \<and>
              posts (calls ?w2) = posts (calls emptyWorld) + 1"
    using conflict_unresolved_returns_placeholder
      [where ts = ?rt and roomData = hallData and w = emptyWorld and m = ?m and wa = ?w1
         and existingRooms = "JArr []" and wb = ?w2]
      r1 r2 r3 r4
    by (simp add: prod_eq_iff)
  have sub: "createOrUpdateSubSession ?st keynotePayload (JNum 46) emptyWorld
               = (Inr (mockSubSession keynotePayload), ?v3) \<and>
             posts (calls ?v3) = posts (calls emptyWorld) + 1"
    using conflict_unresolved_returns_placeholder
      [where ts = ?st and d = keynotePayload and eventId = "JNum 46" and v = emptyWorld
         and foundA = JUndefined and va = ?v1 and n = ?n and vb = ?v2
         and foundB = JUndefined and vc = ?v3]
      s0 s1 s2 s3 s4
    by (simp add: prod_eq_iff)
  show ?thesis
    using room sub r1 r2 r4 r5 r6 s0 s5 by simp
qed

text \<open>
  Claim C2 as stated fails: against that target, \<open>createRoom\<close> and
  \<open>createOrUpdateSubSession\<close> both end with a success result that carries a fabricated
  entity, not with an error.
\<close>

theorem conflict_unresolved_counterexample:
  "fst (createRoom (conflictTarget ''Room already exists'' (JArr [])) hallData emptyWorld)
     = Inr (JObj [(''id'', JStr ''existing-hall''), (''name'', JStr ''hall''),
                  (''displayName'', JStr ''hall''), (''eventLocationId'', JNum 500),
                  (''_isExisting'', JBool True)]) \<and>
   fst (createOrUpdateSubSession (conflictTarget ''SourceSystemId already in use'' (JArr []))
          keynotePayload (JNum 46) emptyWorld)
     = Inr (JObj [(''id'', JStr ''existing-ss-7''), (''name'', JStr ''Keynote''),
                  (''sourceSystemId'', JStr ''ss-7''), (''sessionId'', JStr ''sess-1''),
                  (''_isExisting'', JBool True)])"
  by code_simp

section \<open>Conflicts that are resolved\<close>















section \<open>Transient failures\<close>

text \<open>
  Claim C5 at a transient failure. The first answer of the target is a 503, every later
  one a success. \<open>eventApiRequest\<close> and \<open>createOrUpdateSession\<close> send one request and end
  with the error; the same request would succeed in the world they leave behind, and
  \<open>Utils.retry\<close> around the same operation succeeds after sleeping once for the base delay.
\<close>

theorem transient_failure_not_retried:
  "fst (eventApiRequest flakyTarget ''POST'' ''sessions'' (JObj talkPayload)
          [(''eventId'', JNum 46)] freshWorld)
     = Inl ''Current event API Error (503): Service Unavailable'' \<and>
   length (calls (snd (eventApiRequest flakyTarget ''POST'' ''sessions'' (JObj talkPayload)
          [(''eventId'', JNum 46)] freshWorld))) = 1 \<and>
   fst (createOrUpdateSession flakyTarget talkPayload freshWorld)
     = Inl (''Failed to create session '' @ dq @ ''Talk'' @ dq
             @ '': Current event API Error (503): Service Unavailable'') \<and>
   length (calls (snd (createOrUpdateSession flakyTarget talkPayload freshWorld))) = 1 \<and>
   fst (createOrUpdateSession flakyTarget talkPayload
          (snd (createOrUpdateSession flakyTarget talkPayload freshWorld)))
     = Inr (JObj [(''id'', JStr ''t-1'')]) \<and>
   fst (fst (retry (createOrUpdateSession flakyTarget talkPayload) 3 1000 freshWorld))
     = Inr (JObj [(''id'', JStr ''t-1'')]) \<and>
   snd (retry (createOrUpdateSession flakyTarget talkPayload) 3 1000 freshWorld) = [1000]"
  by code_simp

section \<open>Dry run\<close>

lemma send_get_mutating:
  "rq_method req = ''GET'' \<Longrightarrow>
   filter mutating (calls (snd (send ts req w))) = filter mutating (calls w)"
  by (simp add: send_def mutating_def split: prod.splits)

lemma rawGet_mutating:
  "filter mutating (calls (snd (rawGet ts apiType path w))) = filter mutating (calls w)"
proof -
  let ?req = "\<lparr>rq_api = apiType, rq_method = ''GET'', rq_endpoint = path, rq_params = [], rq_data = None\<rparr>"
  have "snd (rawGet ts apiType path w) = snd (send ts ?req w)"
    by (simp add: rawGet_def split: prod.splits sum.splits)
  then show ?thesis using send_get_mutating[of ?req ts w] by simp
qed

lemma testConnection_mutating:
  "filter mutating (calls (snd (testConnection ts w))) = filter mutating (calls w)"
proof -
  have fb: "\<And>w'. filter mutating (calls (snd (case rawGet ts ''event'' ''/Events'' w' of
              (Inl fallbackError, w2) \<Rightarrow> (Inl (''Current API connection failed: '' @ fallbackError) :: unit result, w2)
            | (Inr body, w2) \<Rightarrow> (Inr (), w2)))) = filter mutating (calls w')"
  proof -
    fix w'
    have "snd (case rawGet ts ''event'' ''/Events'' w' of
              (Inl fallbackError, w2) \<Rightarrow> (Inl (''Current API connection failed: '' @ fallbackError) :: unit result, w2)
            | (Inr body, w2) \<Rightarrow> (Inr (), w2)) = snd (rawGet ts ''event'' ''/Events'' w')"
      by (simp split: prod.splits sum.splits)
    then show "filter mutating (calls (snd (case rawGet ts ''event'' ''/Events'' w' of
              (Inl fallbackError, w2) \<Rightarrow> (Inl (''Current API connection failed: '' @ fallbackError) :: unit result, w2)
            | (Inr body, w2) \<Rightarrow> (Inr (), w2)))) = filter mutating (calls w')"
      using rawGet_mutating[of ts "''event''" "''/Events''" w'] by simp
  qed
  obtain r1 w1 where g1: "rawGet ts ''event'' ''/health'' w = (r1, w1)"
    by (cases "rawGet ts ''event'' ''/health'' w")
  obtain r2 w2 where g2: "rawGet ts ''files'' ''/health'' w1 = (r2, w2)"
    by (cases "rawGet ts ''files'' ''/health'' w1")
  have m1: "filter mutating (calls w1) = filter mutating (calls w)"
    using rawGet_mutating[of ts "''event''" "''/health''" w] g1 by simp
  have m2: "filter mutating (calls w2) = filter mutating (calls w1)"
    using rawGet_mutating[of ts "''files''" "''/health''" w1] g2 by simp
  show ?thesis
    using g1 g2 m1 m2 fb[of w1] fb[of w2]
    by (cases r1; cases r2) (simp_all add: testConnection_def Let_def)
qed

lemma validateEnvironment_mutating:
  "filter mutating (calls (snd (validateEnvironment env w))) = filter mutating (calls w)"
  by (simp add: validateEnvironment_def testConnection_mutating split: option.splits sum.splits)

lemma migrateAllRooms_dry_world:
  "c_dryRun cfg \<Longrightarrow> snd (migrateAllRooms env pst cfg res w) = w"
  by (simp add: migrateAllRooms_def Let_def split: sum.splits list.splits)

lemma migrateSingleRoom_dry_world:
  "c_dryRun cfg \<Longrightarrow> snd (migrateSingleRoom env cfg res w) = w"
  by (simp add: migrateSingleRoom_def Let_def split: sum.splits option.splits)

lemma executeMigration_dry_world:
  assumes "c_dryRun cfg"
  shows "snd (executeMigration env pst cfg w) = snd (validateEnvironment env w)"
proof -
  obtain v w1 where ve: "validateEnvironment env w = (v, w1)" by (cases "validateEnvironment env w")
  let ?run = "if c_migrateAllRooms cfg then migrateAllRooms env pst cfg newMigrationResult w1
              else migrateSingleRoom env cfg newMigrationResult w1"
  have "snd ?run = w1"
    using assms by (simp add: migrateAllRooms_dry_world migrateSingleRoom_dry_world)
  then obtain r res1 where run: "?run = ((r, res1), w1)" by (cases ?run) auto
  show ?thesis
    using ve run by (cases v; cases r) (simp_all add: executeMigration_def Let_def)
qed

lemma migrateAllRooms_dry_runtime:
  "c_dryRun cfg \<Longrightarrow>
   fst (migrateAllRooms (env\<lparr>e_runtime := rt'\<rparr>) pst cfg res w) = fst (migrateAllRooms env pst cfg res w)"
  by (simp add: migrateAllRooms_def Let_def split: sum.splits list.splits)

lemma migrateSingleRoom_dry_runtime:
  "c_dryRun cfg \<Longrightarrow>
   fst (migrateSingleRoom (env\<lparr>e_runtime := rt'\<rparr>) cfg res w) = fst (migrateSingleRoom env cfg res w)"
  by (simp add: migrateSingleRoom_def Let_def split: sum.splits option.splits)

lemma validateEnvironment_runtime:
  "validateEnvironment (env\<lparr>e_runtime := rt'\<rparr>) w = validateEnvironment env w"
  by (simp add: validateEnvironment_def split: option.splits sum.splits)

lemma executeMigration_dry_runtime:
  assumes "c_dryRun cfg"
  shows "fst (executeMigration (env\<lparr>e_runtime := rt'\<rparr>) pst cfg w) = fst (executeMigration env pst cfg w)"
proof -
  obtain v w1 where ve: "validateEnvironment env w = (v, w1)" by (cases "validateEnvironment env w")
  let ?run = "if c_migrateAllRooms cfg then migrateAllRooms env pst cfg newMigrationResult w1
              else migrateSingleRoom env cfg newMigrationResult w1"
  let ?run' = "if c_migrateAllRooms cfg then migrateAllRooms (env\<lparr>e_runtime := rt'\<rparr>) pst cfg newMigrationResult w1
              else migrateSingleRoom (env\<lparr>e_runtime := rt'\<rparr>) cfg newMigrationResult w1"
  have f: "fst ?run' = fst ?run"
    using assms by (simp add: migrateAllRooms_dry_runtime migrateSingleRoom_dry_runtime)
  obtain r res1 wz where run: "?run = ((r, res1), wz)" by (cases ?run) auto
  with f obtain wz' where run': "?run' = ((r, res1), wz')" by (cases ?run') auto
  show ?thesis
    using ve run run' validateEnvironment_runtime[where env = env and rt' = rt' and w = w]
    by (cases v; cases r) (simp_all add: executeMigration_def Let_def)
qed

lemma executeMigration_dry_all:
  assumes "c_dryRun cfg" and "c_migrateAllRooms cfg"
    and "fst (validateEnvironment env w) = Inr ()"
    and "legacyGetRooms (e_legacy env) (c_legacyEventName cfg) = Inr rooms" and "rooms \<noteq> []"
  shows "fst (executeMigration env pst cfg w) = dryReport (int (length rooms))"
proof -
  obtain w1 where ve: "validateEnvironment env w = (Inr (), w1)"
    using assms(3) by (cases "validateEnvironment env w") auto
  obtain room rest where rs: "rooms = room # rest" using assms(5) by (cases rooms) auto
  have "migrateAllRooms env pst cfg newMigrationResult w1 =
          ((Inr (), (setRoomsProcessed (int (length rooms)) newMigrationResult)\<lparr>mr_dryRun := True\<rparr>), w1)"
    using assms(1,4) rs by (simp add: migrateAllRooms_def Let_def)
  then show ?thesis
    using ve assms(2)
    by (simp add: executeMigration_def Let_def dryReport_def setRoomsProcessed_def newMigrationResult_def)
qed

lemma executeMigration_dry_single:
  assumes "c_dryRun cfg" and "\<not> c_migrateAllRooms cfg"
    and "fst (validateEnvironment env w) = Inr ()"
    and "legacyGetRoom (e_legacy env) (c_legacyEventName cfg) (c_roomName cfg) = Inr (Some room)"
  shows "fst (executeMigration env pst cfg w) = dryReport 1"
proof -
  obtain w1 where ve: "validateEnvironment env w = (Inr (), w1)"
    using assms(3) by (cases "validateEnvironment env w") auto
  have "migrateSingleRoom env cfg newMigrationResult w1 =
          ((Inr (), (setRoomsProcessed 1 newMigrationResult)\<lparr>mr_dryRun := True\<rparr>), w1)"
    using assms(1,4) by (simp add: migrateSingleRoom_def Let_def)
  then show ?thesis
    using ve assms(2)
    by (simp add: executeMigration_def Let_def dryReport_def setRoomsProcessed_def newMigrationResult_def)
qed

text \<open>
  Claim C6 as stated fails: with a DTO configuration that rejects every payload, the
  transformation of the fetched room fails, and a real run reports that failure; the dry
  run of the same room reports no error and success, because it returns before anything is
  transformed or validated.
\<close>

theorem dry_run_skips_validation_counterexample:
  "transformLegacyRoom strictRuntime hallRoom (JNum 46) JNull
     = Inl ''Room transformation failed: Validation failed for room: rejected'' \<and>
   mr_errors (fst (executeMigration (expoEnv strictRuntime [] acceptAll) demoStats
                      (expoConfig False True) emptyWorld)) = [] \<and>
   mr_success (fst (executeMigration (expoEnv strictRuntime [] acceptAll) demoStats
                      (expoConfig False True) emptyWorld)) \<and>
   roomsProcessed (mr_statistics (fst (executeMigration (expoEnv strictRuntime [] acceptAll) demoStats
                      (expoConfig False True) emptyWorld))) = Num 1 \<and>
   mr_errors (fst (executeMigration (expoEnv strictRuntime [] acceptAll) demoStats
                      (expoConfig False False) emptyWorld))
     = [TaskError ''Room processing: hall''
          ''Room transformation failed: Validation failed for room: rejected''] \<and>
   \<not> mr_success (fst (executeMigration (expoEnv strictRuntime [] acceptAll) demoStats
                      (expoConfig False False) emptyWorld))"
  by code_simp

text \<open>
  Claim C6, amended. In a run with the dry-run flag set no mutating call reaches the
  target: the only calls are the GET requests of the connection test. Transformation and
  validation take no part in the run: the report is the same under every runtime, that
  is under every DTO configuration and every transformation. When the environment check
  passes, the report of a run over all rooms that fetched a non-empty list of rooms counts
  \<open>roomsProcessed\<close> as the number of rooms fetched, and the report of a single-room run that
  fetched its room counts 1; both carry the \<open>dryRun\<close> flag, no error, and success.
\<close>

theorem dry_run_makes_no_mutating_call:
  "c_dryRun cfg \<longrightarrow>
     filter mutating (calls (snd (executeMigration env pst cfg w))) = filter mutating (calls w) \<and>
     fst (executeMigration (env\<lparr>e_runtime := rt'\<rparr>) pst cfg w) = fst (executeMigration env pst cfg w) \<and>
     (fst (validateEnvironment env w) = Inr () \<longrightarrow> c_migrateAllRooms cfg \<longrightarrow>
      legacyGetRooms (e_legacy env) (c_legacyEventName cfg) = Inr rooms \<longrightarrow> rooms \<noteq> [] \<longrightarrow>
        fst (executeMigration env pst cfg w) = dryReport (int (length rooms))) \<and>
     (fst (validateEnvironment env w) = Inr () \<longrightarrow> \<not> c_migrateAllRooms cfg \<longrightarrow>
      legacyGetRoom (e_legacy env) (c_legacyEventName cfg) (c_roomName cfg) = Inr (Some room) \<longrightarrow>
        fst (executeMigration env pst cfg w) = dryReport 1)"
proof (intro impI conjI)
  assume dry: "c_dryRun cfg"
  show "filter mutating (calls (snd (executeMigration env pst cfg w))) = filter mutating (calls w)"
    using executeMigration_dry_world[OF dry, of env pst w] validateEnvironment_mutating[of env w]
    by simp
  show "fst (executeMigration (env\<lparr>e_runtime := rt'\<rparr>) pst cfg w) = fst (executeMigration env pst cfg w)"
    using dry by (rule executeMigration_dry_runtime)
next
  assume "c_dryRun cfg" "fst (validateEnvironment env w) = Inr ()" "c_migrateAllRooms cfg"
    "legacyGetRooms (e_legacy env) (c_legacyEventName cfg) = Inr rooms" "rooms \<noteq> []"
  then show "fst (executeMigration env pst cfg w) = dryReport (int (length rooms))"
    by (simp add: executeMigration_dry_all)
next
  assume "c_dryRun cfg" "fst (validateEnvironment env w) = Inr ()" "\<not> c_migrateAllRooms cfg"
    "legacyGetRoom (e_legacy env) (c_legacyEventName cfg) (c_roomName cfg) = Inr (Some room)"
  then show "fst (executeMigration env pst cfg w) = dryReport 1"
    by (simp add: executeMigration_dry_single)
qed

text \<open>Dry runs of the source event \<open>expo\<close>, over all rooms and over the room \<open>hall\<close>.\<close>

theorem dry_run_makes_no_mutating_call_witness:
  "c_dryRun (expoConfig True True) \<and> c_migrateAllRooms (expoConfig True True) \<and>
   fst (validateEnvironment (expoEnv demoRuntime [] acceptAll) emptyWorld) = Inr () \<and>
   legacyGetRooms (e_legacy (expoEnv demoRuntime [] acceptAll)) (c_legacyEventName (expoConfig True True))
     = Inr [hallRoom] \<and>
   filter mutating (calls (snd (executeMigration (expoEnv demoRuntime [] acceptAll) demoStats
                                  (expoConfig True True) emptyWorld))) = [] \<and>
   fst (executeMigration (expoEnv demoRuntime [] acceptAll) demoStats (expoConfig True True) emptyWorld)
     = dryReport 1 \<and>
   fst (executeMigration ((expoEnv demoRuntime [] acceptAll)\<lparr>e_runtime := strictRuntime\<rparr>) demoStats
          (expoConfig True True) emptyWorld)
     = dryReport 1 \<and>
   c_dryRun (expoConfig False True) \<and> \<not> c_migrateAllRooms (expoConfig False True) \<and>
   legacyGetRoom (e_legacy (expoEnv demoRuntime [] acceptAll)) (c_legacyEventName (expoConfig False True))
       (c_roomName (expoConfig False True))
     = Inr (Some hallRoom) \<and>
   fst (executeMigration (expoEnv demoRuntime [] acceptAll) demoStats (expoConfig False True) emptyWorld)
     = dryReport 1"
proof -
  let ?env = "expoEnv demoRuntime [] acceptAll"
  have a: "c_dryRun (expoConfig True True)" "c_migrateAllRooms (expoConfig True True)"
    "c_dryRun (expoConfig False True)" "\<not> c_migrateAllRooms (expoConfig False True)"
    by (simp_all add: expoConfig_def)
  have v: "fst (validateEnvironment ?env emptyWorld) = Inr ()" by code_simp
  have g: "legacyGetRooms (e_legacy ?env) (c_legacyEventName (expoConfig True True)) = Inr [hallRoom]"
    by (simp add: expoEnv_def expoLegacy_def)
  have h: "legacyGetRoom (e_legacy ?env) (c_legacyEventName (expoConfig False True))
             (c_roomName (expoConfig False True)) = Inr (Some hallRoom)"
    by (simp add: expoEnv_def expoLegacy_def)
  have e: "filter mutating (calls emptyWorld) = []" by (simp add: emptyWorld_def)
  show ?thesis
    using a v g h e
      dry_run_makes_no_mutating_call
        [where cfg = "expoConfig True True" and env = ?env and pst = demoStats and w = emptyWorld
           and rt' = strictRuntime and rooms = "[hallRoom]"]
      dry_run_makes_no_mutating_call
        [where cfg = "expoConfig False True" and env = ?env and pst = demoStats and w = emptyWorld
           and rt' = strictRuntime and room = hallRoom]
    by simp
qed

section \<open>Failures of sub-sessions in the report\<close>

text \<open>
  Claim C8 at a failing sub-session. The room \<open>hall\<close> is migrated alone; its session \<open>talk\<close>
  has the sub-session \<open>keynote\<close>, and the target accepts every request. When the DTO
  configuration rejects sub-session payloads, the transformation of \<open>keynote\<close> fails, and
  the final report has no error and reports success. The same holds when the
  transformation passes and the creation fails (\<open>createSubSession\<close> passes no event id).
  When the configuration rejects session payloads instead, \<open>processRoom\<close> records the error
  of the session, and the report of the single-room run still has no error.
\<close>

theorem subsession_failure_missing_from_report:
  "transformLegacySubSession (rejecting ''subSession'') 1 keynote (JStr ''t-1'') (JNum 46)
     = Inl ''SubSession transformation failed: Validation failed for subSession: rejected'' \<and>
   mr_errors (fst (executeMigration
       (expoEnv (rejecting ''subSession'') [\<lparr>ls_record = talk, ls_subSessions = Some [keynote]\<rparr>] acceptAll)
       demoStats (expoConfig False False) emptyWorld)) = [] \<and>
   mr_success (fst (executeMigration
       (expoEnv (rejecting ''subSession'') [\<lparr>ls_record = talk, ls_subSessions = Some [keynote]\<rparr>] acceptAll)
       demoStats (expoConfig False False) emptyWorld)) \<and>
   fst (createSubSession acceptAll keynotePayload emptyWorld)
     = Inl ''EventId is required for subsession creation'' \<and>
   mr_errors (fst (executeMigration
       (expoEnv demoRuntime [\<lparr>ls_record = talk, ls_subSessions = Some [keynote]\<rparr>] acceptAll)
       demoStats (expoConfig False False) emptyWorld)) = [] \<and>
   mr_success (fst (executeMigration
       (expoEnv demoRuntime [\<lparr>ls_record = talk, ls_subSessions = Some [keynote]\<rparr>] acceptAll)
       demoStats (expoConfig False False) emptyWorld)) \<and>
   rr_errors (fst (processRoom
       (expoEnv (rejecting ''session'') [\<lparr>ls_record = talk, ls_subSessions = Some [keynote]\<rparr>] acceptAll)
       (expoConfig False False) hallRoom emptyWorld))
     = [TaskError ''Session processing: Talk''
          ''Session transformation failed: Validation failed for session: rejected''] \<and>
   mr_errors (fst (executeMigration
       (expoEnv (rejecting ''session'') [\<lparr>ls_record = talk, ls_subSessions = Some [keynote]\<rparr>] acceptAll)
       demoStats (expoConfig False False) emptyWorld)) = [] \<and>
   mr_success (fst (executeMigration
       (expoEnv (rejecting ''session'') [\<lparr>ls_record = talk, ls_subSessions = Some [keynote]\<rparr>] acceptAll)
       demoStats (expoConfig False False) emptyWorld))"
  by code_simp

end
